theory Spec2Isabelle
  imports Complex_Main "HOL-Library.Word"
begin

section \<open>Radar presence application: the two tasks and the console mutex\<close>

text \<open>
  The embedding follows \<^verbatim>\<open>radar_task.c\<close> and \<^verbatim>\<open>radar_terminal_ui.c\<close>.
  Every call that leaves the two files (HAL, RTOS, RadarSensing library, \<^verbatim>\<open>printf\<close>)
  is recorded, in program order, in a trace of effects.  What such a call returns is
  not decided by the two files; it is supplied by an environment, as a function of
  the trace recorded so far, so that nothing is assumed about the services.
\<close>

subsection \<open>Types of the external interfaces\<close>

type_synonym cy_rslt_t = "32 word"
type_synonym cy_time_t = "32 word"

text \<open>Modelled from the spec: the three macros below are declared in headers outside
  the sources.  For the spec a status is the success code or anything else; the numbers
  are those of the HAL and library headers, and matter only where an example is run.\<close>

definition CY_RSLT_SUCCESS :: cy_rslt_t where
  "CY_RSLT_SUCCESS = 0"

definition MTB_RADAR_SENSING_SUCCESS :: cy_rslt_t where
  "MTB_RADAR_SENSING_SUCCESS = 0"

definition CY_RTOS_NEVER_TIMEOUT :: cy_time_t where
  "CY_RTOS_NEVER_TIMEOUT = 0xFFFFFFFF"

datatype pin = LED_RGB_RED | LED_RGB_GREEN | LED_RGB_BLUE
  | CYBSP_SPI_CS | CYBSP_GPIO11 | CYBSP_GPIO5 | CYBSP_GPIO10

datatype gpio_direction = CYHAL_GPIO_DIR_INPUT | CYHAL_GPIO_DIR_OUTPUT

datatype gpio_drive = CYHAL_GPIO_DRIVE_STRONG | CYHAL_GPIO_DRIVE_PULLDOWN

definition LED_STATE_OFF :: bool where
  "LED_STATE_OFF = False"

definition LED_STATE_ON :: bool where
  "LED_STATE_ON = True"

definition SPI_FREQUENCY :: nat where
  "SPI_FREQUENCY = 25000000"

text \<open>Modelled from the spec: the event enumeration is declared in the library's
  header.  The event tag: the two presence variants the callback handles, and any other
  value of the enumeration.\<close>

datatype mtb_radar_sensing_event_t =
    MTB_RADAR_SENSING_EVENT_PRESENCE_IN
  | MTB_RADAR_SENSING_EVENT_PRESENCE_OUT
  | MTB_RADAR_SENSING_EVENT_OTHER nat

text \<open>Modelled from the spec: the event description is a structure of the library's
  header, with the fields the callback reads.  The floating-point type of the target is
  the type parameter \<open>'f\<close>; the timestamp is an unsigned integer.\<close>

record 'f event_info =
  timestamp :: nat
  distance :: 'f
  accuracy :: 'f

text \<open>Floating-point conversion and arithmetic, as the compiler supplies them.\<close>

record 'f float_ops =
  f_cast :: "nat \<Rightarrow> 'f"
  f_div :: "'f \<Rightarrow> 'f \<Rightarrow> 'f"
  f_sub :: "'f \<Rightarrow> 'f \<Rightarrow> 'f"
  f_add :: "'f \<Rightarrow> 'f \<Rightarrow> 'f"

datatype 'f printf_arg = Arg_f 'f | Arg_s string

text \<open>What one call of \<^verbatim>\<open>cyhal_uart_getc\<close> delivers: a byte with the success
  status, or a non-success status with nothing stored.\<close>

datatype getc_outcome = Rx char | Rx_fail

subsection \<open>Effects and the world\<close>

datatype 'f effect =
    Printf string "'f printf_arg list"
  | Uart_getc getc_outcome
  | Uart_putc char
  | Gpio_init pin gpio_direction gpio_drive bool cy_rslt_t
  | Gpio_write pin bool
  | Mutex_init cy_rslt_t
  | Mutex_get cy_time_t cy_rslt_t
  | Mutex_set
  | Spi_init cy_rslt_t
  | Spi_set_frequency nat cy_rslt_t
  | Sensing_init cy_rslt_t
  | Register_callback cy_rslt_t
  | Set_parameter string string cy_rslt_t
  | Get_parameter string string
  | Sensing_enable cy_rslt_t
  | Sensing_process "64 word" cy_rslt_t
  | Task_delay
  | Exit_thread

text \<open>The world: the effects so far, and the outcomes the UART will deliver to the
  coming \<^verbatim>\<open>cyhal_uart_getc\<close> calls.  When that list is empty no byte ever
  arrives any more, and a read with timeout 0 waits forever.\<close>

record 'f world =
  trace :: "'f effect list"
  uart_rx :: "getc_outcome list"

text \<open>The environment: the result of each external call, given the trace so far.\<close>

record 'f env =
  fops :: "'f float_ops"
  cy_rtos_init_mutex_rslt :: "'f effect list \<Rightarrow> cy_rslt_t"
  cy_rtos_get_mutex_rslt :: "'f effect list \<Rightarrow> cy_time_t \<Rightarrow> cy_rslt_t"
  cyhal_gpio_init_rslt :: "'f effect list \<Rightarrow> pin \<Rightarrow> cy_rslt_t"
  cyhal_spi_init_rslt :: "'f effect list \<Rightarrow> cy_rslt_t"
  cyhal_spi_set_frequency_rslt :: "'f effect list \<Rightarrow> nat \<Rightarrow> cy_rslt_t"
  sensing_init_rslt :: "'f effect list \<Rightarrow> cy_rslt_t"
  register_callback_rslt :: "'f effect list \<Rightarrow> cy_rslt_t"
  set_parameter_rslt :: "'f effect list \<Rightarrow> string \<Rightarrow> string \<Rightarrow> cy_rslt_t"
  get_parameter_out :: "'f effect list \<Rightarrow> string \<Rightarrow> string"
  sensing_enable_rslt :: "'f effect list \<Rightarrow> cy_rslt_t"
  process_events :: "'f effect list \<Rightarrow> 64 word \<Rightarrow> (mtb_radar_sensing_event_t \<times> 'f event_info) list"
  process_rslt :: "'f effect list \<Rightarrow> 64 word \<Rightarrow> cy_rslt_t"
  xTaskGetTickCount :: "'f effect list \<Rightarrow> 32 word"
  portTICK_PERIOD_MS :: "32 word"

definition emit :: "'f effect \<Rightarrow> 'f world \<Rightarrow> 'f world" where
  "emit e w = w\<lparr>trace := trace w @ [e]\<rparr>"

definition printf :: "string \<Rightarrow> 'f printf_arg list \<Rightarrow> 'f world \<Rightarrow> 'f world" where
  "printf fmt args w = emit (Printf fmt args) w"

definition cyhal_gpio_write :: "pin \<Rightarrow> bool \<Rightarrow> 'f world \<Rightarrow> 'f world" where
  "cyhal_gpio_write p v w = emit (Gpio_write p v) w"

subsection \<open>radar_task.c: the console mutex and the event callback\<close>

definition radar_presence_terminal_mutex_get ::
  "'f env \<Rightarrow> cy_time_t \<Rightarrow> 'f world \<Rightarrow> cy_rslt_t \<times> 'f world" where
  "radar_presence_terminal_mutex_get env timeout_ms w =
     (let r = cy_rtos_get_mutex_rslt env (trace w) timeout_ms
      in (r, emit (Mutex_get timeout_ms r) w))"

definition radar_presence_terminal_mutex_release :: "'f world \<Rightarrow> 'f world" where
  "radar_presence_terminal_mutex_release w = emit Mutex_set w"

definition presence_in_format :: string where
  "presence_in_format = ''%.3f: Presence IN %.2f-%.2f\<newline>''"

definition presence_out_format :: string where
  "presence_out_format = ''%.3f: Presence OUT\<newline>''"

text \<open>\<^verbatim>\<open>(float)event_info->timestamp / 1000\<close>\<close>

definition timestamp_seconds :: "'f float_ops \<Rightarrow> 'f event_info \<Rightarrow> 'f" where
  "timestamp_seconds ops info = f_div ops (f_cast ops (timestamp info)) (f_cast ops 1000)"

definition radar_sensing_callback ::
  "'f env \<Rightarrow> mtb_radar_sensing_event_t \<Rightarrow> 'f event_info \<Rightarrow> 'f world \<Rightarrow> 'f world" where
  "radar_sensing_callback env event info w =
     (case event of
        MTB_RADAR_SENSING_EVENT_PRESENCE_IN \<Rightarrow>
          (let w1 = cyhal_gpio_write LED_RGB_RED LED_STATE_ON w;
               w2 = cyhal_gpio_write LED_RGB_GREEN LED_STATE_OFF w1;
               (r, w3) = radar_presence_terminal_mutex_get env 0 w2
           in if r = CY_RSLT_SUCCESS
              then radar_presence_terminal_mutex_release
                     (printf presence_in_format
                        [Arg_f (timestamp_seconds (fops env) info),
                         Arg_f (f_sub (fops env) (distance info) (accuracy info)),
                         Arg_f (f_add (fops env) (distance info) (accuracy info))] w3)
              else w3)
      | MTB_RADAR_SENSING_EVENT_PRESENCE_OUT \<Rightarrow>
          (let w1 = cyhal_gpio_write LED_RGB_RED LED_STATE_OFF w;
               w2 = cyhal_gpio_write LED_RGB_GREEN LED_STATE_ON w1;
               (r, w3) = radar_presence_terminal_mutex_get env 0 w2
           in if r = CY_RSLT_SUCCESS
              then radar_presence_terminal_mutex_release
                     (printf presence_out_format
                        [Arg_f (timestamp_seconds (fops env) info)] w3)
              else w3)
      | MTB_RADAR_SENSING_EVENT_OTHER k \<Rightarrow> w)"

text \<open>Observations on a trace: the level last written to an output pin (off before
  the first write), and the lines printed.\<close>

definition gpio_level :: "pin \<Rightarrow> 'f effect list \<Rightarrow> bool" where
  "gpio_level p tr =
     fold (\<lambda>e lv. case e of
                    Gpio_write q v \<Rightarrow> if q = p then v else lv
                  | Gpio_init q d m v r \<Rightarrow> if q = p then v else lv
                  | _ \<Rightarrow> lv) tr False"

fun printed :: "'f effect list \<Rightarrow> (string \<times> 'f printf_arg list) list" where
  "printed [] = []"
| "printed (Printf fmt args # es) = (fmt, args) # printed es"
| "printed (e # es) = printed es"


definition radar_presence_task_set_mute :: "'f env \<Rightarrow> bool \<Rightarrow> 'f world \<Rightarrow> 'f world" where
  "radar_presence_task_set_mute env mute w =
     (if mute
      then snd (radar_presence_terminal_mutex_get env CY_RTOS_NEVER_TIMEOUT w)
      else radar_presence_terminal_mutex_release w)"

subsection \<open>radar_task.c: bring-up and the processing loop\<close>

text \<open>The task never returns: after bring-up and some iterations of its loop it is
  either still running or halted.\<close>

datatype 'f task_state = Running "'f world" | Halted "'f world"

text \<open>Modelled from the spec: \<^verbatim>\<open>CY_ASSERT\<close> is a macro of a header outside the
  sources; the spec has a failed assertion halt the task, with no unwinding.\<close>

definition CY_ASSERT :: "bool \<Rightarrow> 'f world \<Rightarrow> 'f task_state" where
  "CY_ASSERT c w = (if c then Running w else Halted w)"

definition cy_rtos_init_mutex :: "'f env \<Rightarrow> 'f world \<Rightarrow> cy_rslt_t \<times> 'f world" where
  "cy_rtos_init_mutex env w =
     (let r = cy_rtos_init_mutex_rslt env (trace w) in (r, emit (Mutex_init r) w))"

definition cyhal_gpio_init ::
  "'f env \<Rightarrow> pin \<Rightarrow> gpio_direction \<Rightarrow> gpio_drive \<Rightarrow> bool \<Rightarrow> 'f world \<Rightarrow> cy_rslt_t \<times> 'f world" where
  "cyhal_gpio_init env p d m v w =
     (let r = cyhal_gpio_init_rslt env (trace w) p in (r, emit (Gpio_init p d m v r) w))"

definition cyhal_spi_init :: "'f env \<Rightarrow> 'f world \<Rightarrow> cy_rslt_t \<times> 'f world" where
  "cyhal_spi_init env w =
     (let r = cyhal_spi_init_rslt env (trace w) in (r, emit (Spi_init r) w))"

definition cyhal_spi_set_frequency :: "'f env \<Rightarrow> nat \<Rightarrow> 'f world \<Rightarrow> cy_rslt_t \<times> 'f world" where
  "cyhal_spi_set_frequency env hz w =
     (let r = cyhal_spi_set_frequency_rslt env (trace w) hz
      in (r, emit (Spi_set_frequency hz r) w))"

definition mtb_radar_sensing_init :: "'f env \<Rightarrow> 'f world \<Rightarrow> cy_rslt_t \<times> 'f world" where
  "mtb_radar_sensing_init env w =
     (let r = sensing_init_rslt env (trace w) in (r, emit (Sensing_init r) w))"

definition mtb_radar_sensing_register_callback ::
  "'f env \<Rightarrow> 'f world \<Rightarrow> cy_rslt_t \<times> 'f world" where
  "mtb_radar_sensing_register_callback env w =
     (let r = register_callback_rslt env (trace w) in (r, emit (Register_callback r) w))"

definition mtb_radar_sensing_set_parameter ::
  "'f env \<Rightarrow> string \<Rightarrow> string \<Rightarrow> 'f world \<Rightarrow> cy_rslt_t \<times> 'f world" where
  "mtb_radar_sensing_set_parameter env name val w =
     (let r = set_parameter_rslt env (trace w) name val
      in (r, emit (Set_parameter name val r) w))"

definition mtb_radar_sensing_get_parameter ::
  "'f env \<Rightarrow> string \<Rightarrow> 'f world \<Rightarrow> string \<times> 'f world" where
  "mtb_radar_sensing_get_parameter env name w =
     (let v = get_parameter_out env (trace w) name in (v, emit (Get_parameter name v) w))"

definition mtb_radar_sensing_enable :: "'f env \<Rightarrow> 'f world \<Rightarrow> cy_rslt_t \<times> 'f world" where
  "mtb_radar_sensing_enable env w =
     (let r = sensing_enable_rslt env (trace w) in (r, emit (Sensing_enable r) w))"

text \<open>The process step calls the registered callback, on the same task, once for each
  event the engine reports, and then returns its status.\<close>

definition mtb_radar_sensing_process ::
  "'f env \<Rightarrow> 64 word \<Rightarrow> 'f world \<Rightarrow> cy_rslt_t \<times> 'f world" where
  "mtb_radar_sensing_process env ts w =
     (let w1 = fold (\<lambda>(event, info). radar_sensing_callback env event info)
                    (process_events env (trace w) ts) w;
          r = process_rslt env (trace w1) ts
      in (r, emit (Sensing_process ts r) w1))"

definition ifx_currenttime :: "'f env \<Rightarrow> 'f world \<Rightarrow> 64 word" where
  "ifx_currenttime env w =
     ucast (xTaskGetTickCount env (trace w)) * ucast (portTICK_PERIOD_MS env)"

definition vTaskDelay :: "'f world \<Rightarrow> 'f world" where
  "vTaskDelay w = emit Task_delay w"

text \<open>\<^verbatim>\<open>if (call != ok) { CY_ASSERT(0); }\<close>, and the same for a call whose result
  is not looked at.\<close>

definition asserting ::
  "cy_rslt_t \<Rightarrow> ('f world \<Rightarrow> cy_rslt_t \<times> 'f world) \<Rightarrow> 'f world \<Rightarrow> 'f task_state" where
  "asserting ok call w =
     (let (r, w1) = call w in if r \<noteq> ok then CY_ASSERT False w1 else Running w1)"

definition ignoring :: "('f world \<Rightarrow> cy_rslt_t \<times> 'f world) \<Rightarrow> 'f world \<Rightarrow> 'f task_state" where
  "ignoring call w = Running (snd (call w))"

fun run_steps :: "('f world \<Rightarrow> 'f task_state) list \<Rightarrow> 'f world \<Rightarrow> 'f task_state" where
  "run_steps [] w = Running w"
| "run_steps (s # ss) w =
     (case s w of Running w1 \<Rightarrow> run_steps ss w1 | Halted w1 \<Rightarrow> Halted w1)"

definition sensing_init_error :: string where
  "sensing_init_error = ''ifx_radar_sensing_init error - Radar Wingboard not connected?\<newline>''"

definition sensing_process_error :: string where
  "sensing_process_error = ''ifx_radar_sensing_process error\<newline>''"

definition radar_task_init_sensing :: "'f env \<Rightarrow> 'f world \<Rightarrow> 'f task_state" where
  "radar_task_init_sensing env w =
     (let (r, w1) = mtb_radar_sensing_init env w
      in if r \<noteq> MTB_RADAR_SENSING_SUCCESS
         then CY_ASSERT False (printf sensing_init_error [] w1)
         else Running w1)"

definition radar_task_bringup :: "'f env \<Rightarrow> ('f world \<Rightarrow> 'f task_state) list" where
  "radar_task_bringup env =
     [asserting CY_RSLT_SUCCESS (cy_rtos_init_mutex env),
      asserting CY_RSLT_SUCCESS
        (cyhal_gpio_init env LED_RGB_RED CYHAL_GPIO_DIR_OUTPUT CYHAL_GPIO_DRIVE_STRONG LED_STATE_OFF),
      asserting CY_RSLT_SUCCESS
        (cyhal_gpio_init env LED_RGB_GREEN CYHAL_GPIO_DIR_OUTPUT CYHAL_GPIO_DRIVE_STRONG LED_STATE_OFF),
      asserting CY_RSLT_SUCCESS
        (cyhal_gpio_init env LED_RGB_BLUE CYHAL_GPIO_DIR_OUTPUT CYHAL_GPIO_DRIVE_STRONG LED_STATE_OFF),
      ignoring (cyhal_gpio_init env CYBSP_GPIO11 CYHAL_GPIO_DIR_OUTPUT CYHAL_GPIO_DRIVE_STRONG True),
      ignoring (cyhal_gpio_init env CYBSP_GPIO5 CYHAL_GPIO_DIR_OUTPUT CYHAL_GPIO_DRIVE_STRONG True),
      ignoring (cyhal_gpio_init env CYBSP_GPIO10 CYHAL_GPIO_DIR_INPUT CYHAL_GPIO_DRIVE_PULLDOWN False),
      ignoring (cyhal_gpio_init env CYBSP_SPI_CS CYHAL_GPIO_DIR_OUTPUT CYHAL_GPIO_DRIVE_STRONG True),
      asserting CY_RSLT_SUCCESS (cyhal_spi_init env),
      asserting CY_RSLT_SUCCESS (cyhal_spi_set_frequency env SPI_FREQUENCY),
      radar_task_init_sensing env,
      asserting MTB_RADAR_SENSING_SUCCESS (mtb_radar_sensing_register_callback env),
      asserting MTB_RADAR_SENSING_SUCCESS
        (mtb_radar_sensing_set_parameter env ''radar_presence_range_max'' ''1.0''),
      asserting MTB_RADAR_SENSING_SUCCESS
        (mtb_radar_sensing_set_parameter env ''radar_presence_sensitivity'' ''medium''),
      asserting MTB_RADAR_SENSING_SUCCESS (mtb_radar_sensing_enable env)]"

text \<open>One turn of the \<^verbatim>\<open>for (;;)\<close> loop.\<close>

definition radar_task_iteration :: "'f env \<Rightarrow> 'f world \<Rightarrow> 'f task_state" where
  "radar_task_iteration env w =
     (let (r, w1) = mtb_radar_sensing_process env (ifx_currenttime env w) w
      in case (if r \<noteq> MTB_RADAR_SENSING_SUCCESS
               then CY_ASSERT False (printf sensing_process_error [] w1)
               else Running w1) of
           Running w2 \<Rightarrow> Running (vTaskDelay w2)
         | Halted w2 \<Rightarrow> Halted w2)"

text \<open>The loop has no exit.  \<open>radar_task_loop n\<close> is the task after at most \<open>n\<close>
  turns: halted if one of them halted, running otherwise.\<close>

fun radar_task_loop :: "nat \<Rightarrow> 'f env \<Rightarrow> 'f world \<Rightarrow> 'f task_state" where
  "radar_task_loop 0 env w = Running w"
| "radar_task_loop (Suc n) env w =
     (case radar_task_iteration env w of
        Running w1 \<Rightarrow> radar_task_loop n env w1
      | Halted w1 \<Rightarrow> Halted w1)"

definition radar_task :: "nat \<Rightarrow> 'f env \<Rightarrow> 'f world \<Rightarrow> 'f task_state" where
  "radar_task n env w =
     (case run_steps (radar_task_bringup env) w of
        Running w1 \<Rightarrow> radar_task_loop n env w1
      | Halted w1 \<Rightarrow> Halted w1)"

subsection \<open>radar_terminal_ui.c\<close>

text \<open>An operation of the terminal task returns, or waits forever for a byte that
  never arrives, or stores outside the buffer it was given.\<close>

datatype ('r, 'f) outcome = Returns 'r "'f world" | Blocks "'f world" | Faults "'f world"

definition IFX_RADAR_SENSING_VALUE_MAXLENGTH :: int where
  "IFX_RADAR_SENSING_VALUE_MAXLENGTH = 256"

text \<open>A read takes the next outcome of the UART; when none is left the call never
  returns.\<close>

definition cyhal_uart_getc :: "'f world \<Rightarrow> (getc_outcome \<times> 'f world) option" where
  "cyhal_uart_getc w =
     (case uart_rx w of
        [] \<Rightarrow> None
      | x # xs \<Rightarrow> Some (x, emit (Uart_getc x) (w\<lparr>uart_rx := xs\<rparr>)))"

definition cyhal_uart_putc :: "char \<Rightarrow> 'f world \<Rightarrow> 'f world" where
  "cyhal_uart_putc c w = emit (Uart_putc c) w"

text \<open>\<^verbatim>\<open>isspace\<close> of the C locale: space, and the five controls from tab to
  carriage return.\<close>

definition isspace :: "char \<Rightarrow> bool" where
  "isspace c = (of_char c = (32::nat) \<or> (9 \<le> (of_char c :: nat) \<and> (of_char c :: nat) \<le> 13))"

text \<open>The string a \<^verbatim>\<open>char\<close> buffer holds: the bytes before the first NUL.\<close>

definition c_string :: "string \<Rightarrow> string" where
  "c_string buf = takeWhile (\<lambda>c. c \<noteq> CHR 0x00) buf"

definition terminal_ui_menu :: "'f env \<Rightarrow> 'f world \<Rightarrow> 'f world" where
  "terminal_ui_menu env w =
     (let w1 = radar_presence_task_set_mute env True w;
          w2 = printf ''Select a setting to configure\<newline>'' [] w1;
          (v1, w3) = mtb_radar_sensing_get_parameter env ''radar_presence_range_max'' w2;
          w4 = printf '''r': Set presence max range (%s)\<newline>'' [Arg_s v1] w3;
          (v2, w5) = mtb_radar_sensing_get_parameter env ''radar_presence_sensitivity'' w4;
          w6 = printf '''s': Set sensitivity (%s)\<newline>'' [Arg_s v2] w5;
          w7 = printf ''\<newline>'' [] w6
      in radar_presence_task_set_mute env False w7)"

definition terminal_ui_info :: "'f world \<Rightarrow> 'f world" where
  "terminal_ui_info w = printf ''Press '?' to list all radar presence settings\<newline>'' [] w"

text \<open>What \<^verbatim>\<open>rx_value\<close> holds after a read: the byte delivered, or the byte it
  held before when nothing was stored.\<close>

fun received :: "char \<Rightarrow> getc_outcome \<Rightarrow> char" where
  "received rx (Rx c) = c"
| "received rx Rx_fail = rx"

text \<open>The \<^verbatim>\<open>while\<close> loop of \<^verbatim>\<open>terminal_ui_readline\<close>.  The status of the
  read is not looked at: after a failed read \<^verbatim>\<open>rx_value\<close> still holds the byte
  before.  The buffer \<open>line\<close> is the caller's array; a store at or beyond its
  length is a fault.\<close>

function terminal_ui_readline_loop ::
  "char \<Rightarrow> int \<Rightarrow> nat \<Rightarrow> string \<Rightarrow> 'f world \<Rightarrow> (nat \<times> string, 'f) outcome" where
  "terminal_ui_readline_loop rx_value maxlength i line w =
     (if rx_value \<noteq> CHR 0x0D \<and> maxlength - 1 > 0
      then (case cyhal_uart_getc w of
              None \<Rightarrow> Blocks w
            | Some (got, w1) \<Rightarrow>
                (let rx = received rx_value got;
                     w2 = cyhal_uart_putc rx w1
                 in if isspace rx
                    then terminal_ui_readline_loop rx (maxlength - 1) i line w2
                    else if i < length line
                    then terminal_ui_readline_loop rx (maxlength - 1) (Suc i) (line[i := rx]) w2
                    else Faults w2))
      else Returns (i, line) w)"
  by pat_completeness auto
termination
  by (relation "measure (\<lambda>(rx, maxlength, i, line, w). nat maxlength)") auto

declare terminal_ui_readline_loop.simps [simp del]

definition terminal_ui_readline ::
  "'f env \<Rightarrow> string \<Rightarrow> int \<Rightarrow> 'f world \<Rightarrow> (string, 'f) outcome" where
  "terminal_ui_readline env line maxlength w =
     (let w0 = radar_presence_task_set_mute env True w
      in if maxlength \<le> 0 then Returns line w0
         else (case terminal_ui_readline_loop (CHR 0x00) maxlength 0 line w0 of
                 Returns (i, line1) w1 \<Rightarrow>
                   (let w2 = cyhal_uart_putc (CHR 0x0A) w1
                    in if i < length line1
                       then Returns (line1[i := CHR 0x00]) (radar_presence_task_set_mute env False w2)
                       else Faults w2)
               | Blocks w1 \<Rightarrow> Blocks w1
               | Faults w1 \<Rightarrow> Faults w1))"

definition terminal_ui_print_result :: "cy_rslt_t \<Rightarrow> 'f world \<Rightarrow> 'f world" where
  "terminal_ui_print_result result w =
     (if result = MTB_RADAR_SENSING_SUCCESS
      then printf ''OK\<newline>'' [] w
      else printf ''ERROR\<newline>'' [] w)"

text \<open>\<^verbatim>\<open>readline\<close>, then \<^verbatim>\<open>set_parameter\<close> on the string read, then the report:
  the two statements shared by the cases \<^verbatim>\<open>'r'\<close> and \<^verbatim>\<open>'s'\<close>.\<close>

definition read_and_set ::
  "'f env \<Rightarrow> string \<Rightarrow> string \<Rightarrow> 'f world \<Rightarrow> (string, 'f) outcome" where
  "read_and_set env name val w =
     (case terminal_ui_readline env val IFX_RADAR_SENSING_VALUE_MAXLENGTH w of
        Returns val1 w1 \<Rightarrow>
          (let (r, w2) = mtb_radar_sensing_set_parameter env name (c_string val1) w1
           in Returns val1 (terminal_ui_print_result r w2))
      | Blocks w1 \<Rightarrow> Blocks w1
      | Faults w1 \<Rightarrow> Faults w1)"

text \<open>The \<^verbatim>\<open>switch\<close> of \<^verbatim>\<open>radar_presence_terminal_ui\<close> on the byte read.\<close>

definition terminal_ui_switch ::
  "'f env \<Rightarrow> char \<Rightarrow> string \<Rightarrow> 'f world \<Rightarrow> (string, 'f) outcome" where
  "terminal_ui_switch env rx_value val w =
     (if rx_value = CHR ''?'' then Returns val (terminal_ui_menu env w)
      else if rx_value = CHR ''r''
      then read_and_set env ''radar_presence_range_max'' val
             (printf ''Enter range [0.66-10.2]m, press enter\<newline>'' [] w)
      else if rx_value = CHR ''s''
      then read_and_set env ''radar_presence_sensitivity'' val
             (printf ''Set Sensitivity: 'high', 'medium' or 'low'\<newline>'' [] w)
      else Returns val (terminal_ui_info w))"

text \<open>The world an operation ends in.\<close>

fun world_of :: "('r, 'f) outcome \<Rightarrow> 'f world" where
  "world_of (Returns r w) = w"
| "world_of (Blocks w) = w"
| "world_of (Faults w) = w"

subsection \<open>The command loop consumes its input\<close>

lemma uart_rx_emit [simp]: "uart_rx (emit e w) = uart_rx w"
  by (simp add: emit_def)

lemma trace_emit [simp]: "trace (emit e w) = trace w @ [e]"
  by (simp add: emit_def)

lemma uart_rx_set_mute [simp]: "uart_rx (radar_presence_task_set_mute env m w) = uart_rx w"
  by (simp add: radar_presence_task_set_mute_def radar_presence_terminal_mutex_get_def
      radar_presence_terminal_mutex_release_def Let_def)

lemma uart_rx_menu [simp]: "uart_rx (terminal_ui_menu env w) = uart_rx w"
  by (simp add: terminal_ui_menu_def Let_def printf_def mtb_radar_sensing_get_parameter_def)

lemma readline_loop_stop:
  "rx = CHR 0x0D \<or> m \<le> 1 \<Longrightarrow> terminal_ui_readline_loop rx m i line w = Returns (i, line) w"
  by (subst terminal_ui_readline_loop.simps) auto

lemma readline_loop_blocks:
  "rx \<noteq> CHR 0x0D \<Longrightarrow> 1 < m \<Longrightarrow> uart_rx w = [] \<Longrightarrow>
   terminal_ui_readline_loop rx m i line w = Blocks w"
  by (subst terminal_ui_readline_loop.simps) (simp add: cyhal_uart_getc_def)

lemma readline_loop_step:
  "rx \<noteq> CHR 0x0D \<Longrightarrow> 1 < m \<Longrightarrow> uart_rx w = x # xs \<Longrightarrow>
   terminal_ui_readline_loop rx m i line w =
     (let w2 = w\<lparr>uart_rx := xs, trace := trace w @ [Uart_getc x, Uart_putc (received rx x)]\<rparr>
      in if isspace (received rx x)
         then terminal_ui_readline_loop (received rx x) (m - 1) i line w2
         else if i < length line
         then terminal_ui_readline_loop (received rx x) (m - 1) (Suc i) (line[i := received rx x]) w2
         else Faults w2)"
  by (subst terminal_ui_readline_loop.simps)
     (simp add: cyhal_uart_getc_def cyhal_uart_putc_def emit_def Let_def)

lemma readline_loop_rx_len:
  "length (uart_rx (world_of (terminal_ui_readline_loop rx m i line w))) \<le> length (uart_rx w)"
proof (induction "uart_rx w" arbitrary: rx m i line w)
  case Nil
  then show ?case
    by (cases "rx = CHR 0x0D \<or> m \<le> 1")
       (simp_all add: readline_loop_stop readline_loop_blocks)
next
  case (Cons x xs)
  show ?case
  proof (cases "rx = CHR 0x0D \<or> m \<le> 1")
    case True
    then show ?thesis by (simp add: readline_loop_stop)
  next
    case False
    define w2 where "w2 = w\<lparr>uart_rx := xs, trace := trace w @ [Uart_getc x, Uart_putc (received rx x)]\<rparr>"
    have xs: "xs = uart_rx w2" by (simp add: w2_def)
    have len: "length (uart_rx w) = Suc (length (uart_rx w2))"
      using Cons.hyps(2)[symmetric] by (simp add: w2_def)
    from False have ne: "rx \<noteq> CHR 0x0D" and m: "1 < m" by auto
    show ?thesis
      using Cons.hyps(1)[OF xs, of "received rx x" "m - 1" i line]
            Cons.hyps(1)[OF xs, of "received rx x" "m - 1" "Suc i" "line[i := received rx x]"]
      unfolding readline_loop_step[OF ne m Cons.hyps(2)[symmetric]] len
      by (simp add: Let_def w2_def[symmetric])
  qed
qed

lemma readline_rx_len:
  "length (uart_rx (world_of (terminal_ui_readline env line m w))) \<le> length (uart_rx w)"
  using readline_loop_rx_len[of "CHR 0x00" m 0 line "radar_presence_task_set_mute env True w"]
  by (auto simp add: terminal_ui_readline_def Let_def cyhal_uart_putc_def
      split: outcome.splits)

lemma read_and_set_rx_len:
  "length (uart_rx (world_of (read_and_set env name val w))) \<le> length (uart_rx w)"
  using readline_rx_len[of env val IFX_RADAR_SENSING_VALUE_MAXLENGTH w]
  by (auto simp add: read_and_set_def Let_def mtb_radar_sensing_set_parameter_def
      terminal_ui_print_result_def printf_def split: outcome.splits)

lemma switch_rx_len:
  "length (uart_rx (world_of (terminal_ui_switch env c val w))) \<le> length (uart_rx w)"
  using read_and_set_rx_len[of env _ val "printf _ [] w"]
  by (auto simp add: terminal_ui_switch_def terminal_ui_info_def printf_def)

text \<open>The \<^verbatim>\<open>while\<close> loop of \<^verbatim>\<open>radar_presence_terminal_ui\<close>: it runs as long
  as the read returns success.  Every turn takes at least one outcome from the UART.\<close>

function radar_presence_terminal_ui_loop ::
  "'f env \<Rightarrow> string \<Rightarrow> 'f world \<Rightarrow> (string, 'f) outcome" where
  "radar_presence_terminal_ui_loop env val w =
     (case cyhal_uart_getc w of
        None \<Rightarrow> Blocks w
      | Some (Rx_fail, w1) \<Rightarrow> Returns val w1
      | Some (Rx rx_value, w1) \<Rightarrow>
          (case terminal_ui_switch env rx_value val w1 of
             Returns val1 w2 \<Rightarrow> radar_presence_terminal_ui_loop env val1 w2
           | Blocks w2 \<Rightarrow> Blocks w2
           | Faults w2 \<Rightarrow> Faults w2))"
  by pat_completeness auto
termination
proof (relation "measure (\<lambda>(env, val, w). length (uart_rx w))")
  show "wf (measure (\<lambda>(env, val, w). length (uart_rx w)))" by simp
next
  fix env :: "'f env" and val :: string and w :: "'f world" and x2 x y rx val1 w2
  assume a: "cyhal_uart_getc w = Some x2" "(x, y) = x2" "x = Rx rx"
    "terminal_ui_switch env rx val y = Returns val1 w2"
  from a(1,2) obtain xs where "uart_rx w = x # xs" "uart_rx y = xs"
    by (auto simp add: cyhal_uart_getc_def split: list.splits)
  moreover have "length (uart_rx w2) \<le> length (uart_rx y)"
    using switch_rx_len[of env rx val y] a(4) by simp
  ultimately show "((env, val1, w2), env, val, w) \<in> measure (\<lambda>(env, val, w). length (uart_rx w))"
    by simp
qed


declare radar_presence_terminal_ui_loop.simps [simp del]

definition cy_rtos_exit_thread :: "'f world \<Rightarrow> 'f world" where
  "cy_rtos_exit_thread w = emit Exit_thread w"

text \<open>The task entry; \<open>val\<close> is what the uninitialised array \<^verbatim>\<open>value\<close> holds.\<close>

definition radar_presence_terminal_ui :: "'f env \<Rightarrow> string \<Rightarrow> 'f world \<Rightarrow> (unit, 'f) outcome" where
  "radar_presence_terminal_ui env val w =
     (case radar_presence_terminal_ui_loop env val (terminal_ui_menu env w) of
        Returns val1 w1 \<Rightarrow>
          Returns () (cy_rtos_exit_thread (printf ''Exiting terminal ui\<newline>'' [] w1))
      | Blocks w1 \<Rightarrow> Blocks w1
      | Faults w1 \<Rightarrow> Faults w1)"

subsection \<open>Observations on runs\<close>

text \<open>What reading the bytes \<open>bs\<close> leaves in the trace, and what it keeps of them.\<close>

definition echo :: "string \<Rightarrow> 'f effect list" where
  "echo bs = concat (map (\<lambda>c. [Uart_getc (Rx c), Uart_putc c]) bs)"

definition kept :: "string \<Rightarrow> string" where
  "kept bs = filter (\<lambda>c. \<not> isspace c) bs"

text \<open>No store outside the first \<open>m\<close> bytes, and at most \<open>m - 1\<close> reads.\<close>

fun loop_bounded :: "nat \<Rightarrow> string \<Rightarrow> 'f world \<Rightarrow> nat \<Rightarrow> (nat \<times> string, 'f) outcome \<Rightarrow> bool" where
  "loop_bounded b line w n (Returns (j, line1) w1) =
     (j \<le> b \<and> length line1 = length line \<and> drop b line1 = drop b line \<and>
      length (uart_rx w) \<le> length (uart_rx w1) + n)"
| "loop_bounded b line w n (Blocks w1) = (length (uart_rx w) \<le> length (uart_rx w1) + n)"
| "loop_bounded b line w n (Faults w1) = False"

fun readline_within :: "nat \<Rightarrow> string \<Rightarrow> 'f world \<Rightarrow> (string, 'f) outcome \<Rightarrow> bool" where
  "readline_within b line w (Returns line1 w1) =
     (length line1 = length line \<and> drop b line1 = drop b line \<and>
      length (uart_rx w) < length (uart_rx w1) + b)"
| "readline_within b line w (Blocks w1) = (length (uart_rx w) < length (uart_rx w1) + b)"
| "readline_within b line w (Faults w1) = False"

text \<open>A call whose result \<^verbatim>\<open>radar_task\<close> checks and that did not return success; the
  line printed before halting on it; and classes of effects.\<close>

fun fatal :: "'f effect \<Rightarrow> bool" where
  "fatal (Mutex_init r) = (r \<noteq> CY_RSLT_SUCCESS)"
| "fatal (Gpio_init p d m v r) =
     ((p = LED_RGB_RED \<or> p = LED_RGB_GREEN \<or> p = LED_RGB_BLUE) \<and> r \<noteq> CY_RSLT_SUCCESS)"
| "fatal (Spi_init r) = (r \<noteq> CY_RSLT_SUCCESS)"
| "fatal (Spi_set_frequency hz r) = (r \<noteq> CY_RSLT_SUCCESS)"
| "fatal (Sensing_init r) = (r \<noteq> MTB_RADAR_SENSING_SUCCESS)"
| "fatal (Register_callback r) = (r \<noteq> MTB_RADAR_SENSING_SUCCESS)"
| "fatal (Set_parameter name val r) = (r \<noteq> MTB_RADAR_SENSING_SUCCESS)"
| "fatal (Sensing_enable r) = (r \<noteq> MTB_RADAR_SENSING_SUCCESS)"
| "fatal (Sensing_process ts r) = (r \<noteq> MTB_RADAR_SENSING_SUCCESS)"
| "fatal e = False"

fun diagnostic :: "'f effect \<Rightarrow> 'f effect list" where
  "diagnostic (Sensing_init r) = [Printf sensing_init_error []]"
| "diagnostic (Sensing_process ts r) = [Printf sensing_process_error []]"
| "diagnostic e = []"

fun is_sensing_init :: "'f effect \<Rightarrow> bool" where
  "is_sensing_init (Sensing_init r) = True"
| "is_sensing_init e = False"

fun engine_use :: "'f effect \<Rightarrow> bool" where
  "engine_use (Register_callback r) = True"
| "engine_use (Set_parameter name val r) = True"
| "engine_use (Get_parameter name val) = True"
| "engine_use (Sensing_enable r) = True"
| "engine_use (Sensing_process ts r) = True"
| "engine_use e = False"

fun is_process :: "'f effect \<Rightarrow> bool" where
  "is_process (Sensing_process ts r) = True"
| "is_process e = False"

fun ok_run :: "('f effect \<Rightarrow> bool) \<Rightarrow> 'f world \<Rightarrow> 'f task_state \<Rightarrow> bool" where
  "ok_run P w (Running w1) =
     (\<exists>new. trace w1 = trace w @ new \<and> list_all (\<lambda>e. \<not> fatal e \<and> P e) new)"
| "ok_run P w (Halted w1) =
     (\<exists>pre e. trace w1 = trace w @ pre @ e # diagnostic e \<and>
        list_all (\<lambda>e. \<not> fatal e \<and> P e) pre \<and> fatal e \<and> P e)"

text \<open>Effects of the peripheral bring-up: neither a use of the engine nor its initialisation.\<close>

definition peripheral :: "'f effect \<Rightarrow> bool" where
  "peripheral e = (\<not> engine_use e \<and> \<not> is_sensing_init e)"

text \<open>Effects of the configuration after the engine has been initialised.\<close>

definition after_init :: "'f effect \<Rightarrow> bool" where
  "after_init e = (\<not> is_sensing_init e \<and> \<not> is_process e)"

text \<open>What the callback does: indicator writes, the mutex, and prints.\<close>

fun callback_effect :: "'f effect \<Rightarrow> bool" where
  "callback_effect (Gpio_write p v) = True"
| "callback_effect (Mutex_get t r) = True"
| "callback_effect Mutex_set = True"
| "callback_effect (Printf fmt args) = True"
| "callback_effect e = False"

fun loop_ok :: "nat \<Rightarrow> 'f world \<Rightarrow> 'f task_state \<Rightarrow> bool" where
  "loop_ok n w (Running w1) =
     (\<exists>new. trace w1 = trace w @ new \<and> list_all (\<lambda>e. \<not> fatal e) new \<and>
        length (filter is_process new) = n)"
| "loop_ok n w (Halted w1) =
     (\<exists>pre e. trace w1 = trace w @ pre @ e # diagnostic e \<and> list_all (\<lambda>e. \<not> fatal e) pre \<and>
        fatal e \<and> \<not> is_sensing_init e)"

fun halts_at_first_failure :: "nat \<Rightarrow> 'f world \<Rightarrow> 'f task_state \<Rightarrow> bool" where
  "halts_at_first_failure n w (Running w1) =
     (\<exists>new. trace w1 = trace w @ new \<and> list_all (\<lambda>e. \<not> fatal e) new \<and>
        length (filter is_process new) = n)"
| "halts_at_first_failure n w (Halted w1) =
     (\<exists>pre e. trace w1 = trace w @ pre @ e # diagnostic e \<and> list_all (\<lambda>e. \<not> fatal e) pre \<and>
        fatal e \<and> (is_sensing_init e \<longrightarrow> list_all (\<lambda>x. \<not> engine_use x) pre))"





text \<open>The call that step \<open>k\<close> of the bring-up makes, with the result the environment
  gives it after the trace \<open>tr\<close>.\<close>

definition bringup_call :: "'f env \<Rightarrow> nat \<Rightarrow> 'f effect list \<Rightarrow> 'f effect" where
  "bringup_call env k tr =
     [Mutex_init (cy_rtos_init_mutex_rslt env tr),
      Gpio_init LED_RGB_RED CYHAL_GPIO_DIR_OUTPUT CYHAL_GPIO_DRIVE_STRONG False
        (cyhal_gpio_init_rslt env tr LED_RGB_RED),
      Gpio_init LED_RGB_GREEN CYHAL_GPIO_DIR_OUTPUT CYHAL_GPIO_DRIVE_STRONG False
        (cyhal_gpio_init_rslt env tr LED_RGB_GREEN),
      Gpio_init LED_RGB_BLUE CYHAL_GPIO_DIR_OUTPUT CYHAL_GPIO_DRIVE_STRONG False
        (cyhal_gpio_init_rslt env tr LED_RGB_BLUE),
      Gpio_init CYBSP_GPIO11 CYHAL_GPIO_DIR_OUTPUT CYHAL_GPIO_DRIVE_STRONG True
        (cyhal_gpio_init_rslt env tr CYBSP_GPIO11),
      Gpio_init CYBSP_GPIO5 CYHAL_GPIO_DIR_OUTPUT CYHAL_GPIO_DRIVE_STRONG True
        (cyhal_gpio_init_rslt env tr CYBSP_GPIO5),
      Gpio_init CYBSP_GPIO10 CYHAL_GPIO_DIR_INPUT CYHAL_GPIO_DRIVE_PULLDOWN False
        (cyhal_gpio_init_rslt env tr CYBSP_GPIO10),
      Gpio_init CYBSP_SPI_CS CYHAL_GPIO_DIR_OUTPUT CYHAL_GPIO_DRIVE_STRONG True
        (cyhal_gpio_init_rslt env tr CYBSP_SPI_CS),
      Spi_init (cyhal_spi_init_rslt env tr),
      Spi_set_frequency 25000000 (cyhal_spi_set_frequency_rslt env tr 25000000),
      Sensing_init (sensing_init_rslt env tr),
      Register_callback (register_callback_rslt env tr),
      Set_parameter ''radar_presence_range_max'' ''1.0''
        (set_parameter_rslt env tr ''radar_presence_range_max'' ''1.0''),
      Set_parameter ''radar_presence_sensitivity'' ''medium''
        (set_parameter_rslt env tr ''radar_presence_sensitivity'' ''medium''),
      Sensing_enable (sensing_enable_rslt env tr)] ! k"

text \<open>A concrete environment for running the model on examples: real arithmetic for
  the floating-point operations, one function \<open>res\<close> of the trace for the result of
  every call, one function \<open>evs\<close> for the events a process step reports.\<close>

definition real_ops :: "real float_ops" where
  "real_ops = \<lparr>f_cast = real, f_div = (/), f_sub = (-), f_add = (+)\<rparr>"

definition scripted_env ::
  "(real effect list \<Rightarrow> cy_rslt_t) \<Rightarrow>
   (real effect list \<Rightarrow> (mtb_radar_sensing_event_t \<times> real event_info) list) \<Rightarrow> real env" where
  "scripted_env res evs =
     \<lparr>fops = real_ops,
      cy_rtos_init_mutex_rslt = res,
      cy_rtos_get_mutex_rslt = (\<lambda>tr t. res tr),
      cyhal_gpio_init_rslt = (\<lambda>tr p. res tr),
      cyhal_spi_init_rslt = res,
      cyhal_spi_set_frequency_rslt = (\<lambda>tr hz. res tr),
      sensing_init_rslt = res,
      register_callback_rslt = res,
      set_parameter_rslt = (\<lambda>tr name val. res tr),
      get_parameter_out = (\<lambda>tr name. ''2.0''),
      sensing_enable_rslt = res,
      process_events = (\<lambda>tr ts. evs tr),
      process_rslt = (\<lambda>tr ts. res tr),
      xTaskGetTickCount = (\<lambda>tr. of_nat (length tr)),
      portTICK_PERIOD_MS = 1\<rparr>"

subsection \<open>Lemmas on the line editor\<close>

lemma isspace_CR [simp]: "isspace (CHR 0x0D)"
  by (simp add: isspace_def)

lemma readline_loop_bytes:
  "rx \<noteq> CHR 0x0D \<Longrightarrow> CHR 0x0D \<notin> set (butlast bs) \<Longrightarrow> int (length bs) \<le> m - 1 \<Longrightarrow>
   (bs \<noteq> [] \<and> last bs = CHR 0x0D) \<or> int (length bs) = m - 1 \<Longrightarrow>
   uart_rx w = map Rx bs @ rest \<Longrightarrow> i + length (kept bs) \<le> length line \<Longrightarrow>
   terminal_ui_readline_loop rx m i line w =
     Returns (i + length (kept bs), take i line @ kept bs @ drop (i + length (kept bs)) line)
       (w\<lparr>uart_rx := rest, trace := trace w @ echo bs\<rparr>)"
proof (induction bs arbitrary: rx m i line w)
  case Nil
  then show ?case by (simp add: readline_loop_stop echo_def kept_def)
next
  case (Cons b bs)
  from Cons.prems(3) have m: "1 < m" by simp
  have rx: "uart_rx w = Rx b # (map Rx bs @ rest)" using Cons.prems(5) by simp
  define w2 where "w2 = w\<lparr>uart_rx := map Rx bs @ rest, trace := trace w @ [Uart_getc (Rx b), Uart_putc b]\<rparr>"
  have step: "terminal_ui_readline_loop rx m i line w =
     (if isspace b then terminal_ui_readline_loop b (m - 1) i line w2
      else if i < length line then terminal_ui_readline_loop b (m - 1) (Suc i) (line[i := b]) w2
      else Faults w2)"
    unfolding readline_loop_step[OF Cons.prems(1) m rx] by (simp add: Let_def w2_def)
  show ?case
  proof (cases "b = CHR 0x0D")
    case True
    with Cons.prems(2) have "bs = []" by (cases bs) auto
    with True show ?thesis
      unfolding step by (simp add: readline_loop_stop echo_def kept_def w2_def)
  next
    case False
    have p2: "CHR 0x0D \<notin> set (butlast bs)" using Cons.prems(2) by (cases bs) auto
    have p3: "int (length bs) \<le> (m - 1) - 1" using Cons.prems(3) by simp
    have p4: "(bs \<noteq> [] \<and> last bs = CHR 0x0D) \<or> int (length bs) = (m - 1) - 1"
      using Cons.prems(4) False by (cases bs) auto
    have p5: "uart_rx w2 = map Rx bs @ rest" by (simp add: w2_def)
    show ?thesis
    proof (cases "isspace b")
      case True
      have p6: "i + length (kept bs) \<le> length line" using Cons.prems(6) True by (simp add: kept_def)
      show ?thesis
        unfolding step using True Cons.IH[OF False p2 p3 p4 p5 p6]
        by (simp add: kept_def echo_def w2_def)
    next
      case sp: False
      have i: "i < length line" and p6: "Suc i + length (kept bs) \<le> length (line[i := b])"
        using Cons.prems(6) sp by (simp_all add: kept_def)
      show ?thesis
        unfolding step using sp i Cons.IH[OF False p2 p3 p4 p5 p6]
        by (simp add: kept_def echo_def w2_def take_Suc_conv_app_nth)
    qed
  qed
qed

lemma length_kept_le: "length (kept bs) \<le> length bs"
  by (simp add: kept_def)

lemma drop_eq_later: "drop n a = drop n b \<Longrightarrow> n \<le> k \<Longrightarrow> drop k a = drop k b"
  by (metis drop_drop le_add_diff_inverse2)

lemma loop_bounded_weaken:
  assumes "loop_bounded b line1 w2 n r" and "length line1 = length line"
    and "drop b1 line1 = drop b1 line" and "b \<le> b1"
    and "length (uart_rx w) \<le> Suc (length (uart_rx w2))"
  shows "loop_bounded b1 line w (Suc n) r"
proof (cases r)
  case (Returns p w1)
  obtain j l where p: "p = (j, l)" by (cases p)
  from assms(1) have h: "j \<le> b" "length l = length line1" "drop b l = drop b line1"
    "length (uart_rx w2) \<le> length (uart_rx w1) + n"
    by (simp_all add: Returns p)
  from drop_eq_later[OF h(3) assms(4)] assms(3) have "drop b1 l = drop b1 line" by simp
  with h assms(2,4,5) show ?thesis by (simp add: Returns p)
next
  case (Blocks w1)
  with assms(1,5) show ?thesis by simp
next
  case (Faults w1)
  with assms(1) show ?thesis by simp
qed

lemma readline_loop_within:
  "i + nat (m - 1) < length line \<Longrightarrow>
   loop_bounded (i + nat (m - 1)) line w (nat (m - 1)) (terminal_ui_readline_loop rx m i line w)"
proof (induction "uart_rx w" arbitrary: rx m i line w)
  case Nil
  then show ?case
    by (cases "rx = CHR 0x0D \<or> m \<le> 1")
       (simp_all add: readline_loop_stop readline_loop_blocks)
next
  case (Cons x xs)
  show ?case
  proof (cases "rx = CHR 0x0D \<or> m \<le> 1")
    case True
    then show ?thesis by (simp add: readline_loop_stop)
  next
    case False
    then have ne: "rx \<noteq> CHR 0x0D" and m: "1 < m" by auto
    define c where "c = received rx x"
    define w2 where "w2 = w\<lparr>uart_rx := xs, trace := trace w @ [Uart_getc x, Uart_putc c]\<rparr>"
    have xs: "xs = uart_rx w2" by (simp add: w2_def)
    have len: "length (uart_rx w) = Suc (length (uart_rx w2))"
      using Cons.hyps(2)[symmetric] by (simp add: w2_def)
    have i: "i < length line" using Cons.prems m by simp
    have b: "i + nat (m - 1) = Suc (i + nat (m - 1 - 1))" using m by simp
    have n: "nat (m - 1) = Suc (nat (m - 1 - 1))" using m by simp
    have step: "terminal_ui_readline_loop rx m i line w =
       (if isspace c then terminal_ui_readline_loop c (m - 1) i line w2
        else terminal_ui_readline_loop c (m - 1) (Suc i) (line[i := c]) w2)"
      unfolding readline_loop_step[OF ne m Cons.hyps(2)[symmetric]]
      using i by (simp add: Let_def w2_def c_def)
    show ?thesis
    proof (cases "isspace c")
      case True
      have "i + nat (m - 1 - 1) < length line" using Cons.prems m by simp
      from Cons.hyps(1)[OF xs this, of c]
      have "loop_bounded (i + nat (m - 1 - 1)) line w2 (nat (m - 1 - 1))
              (terminal_ui_readline_loop c (m - 1) i line w2)" .
      from loop_bounded_weaken[OF this refl refl, of "i + nat (m - 1)" w]
      show ?thesis unfolding step n using True len b by simp
    next
      case sp: False
      have "Suc i + nat (m - 1 - 1) < length (line[i := c])" using Cons.prems m by simp
      from Cons.hyps(1)[OF xs this, of c]
      have "loop_bounded (Suc i + nat (m - 1 - 1)) (line[i := c]) w2 (nat (m - 1 - 1))
              (terminal_ui_readline_loop c (m - 1) (Suc i) (line[i := c]) w2)" .
      from loop_bounded_weaken[OF this, of line "i + nat (m - 1)" w]
      show ?thesis unfolding step n using sp len b by simp
    qed
  qed
qed

lemma readline_bytes:
  assumes "0 < m" and "nat m \<le> length line" and "uart_rx w = map Rx bs @ rest"
    and "CHR 0x0D \<notin> set (butlast bs)" and "int (length bs) \<le> m - 1"
    and "(bs \<noteq> [] \<and> last bs = CHR 0x0D) \<or> int (length bs) = m - 1"
  shows "terminal_ui_readline env line m w =
     Returns (kept bs @ CHR 0x00 # drop (Suc (length (kept bs))) line)
       (w\<lparr>uart_rx := rest,
          trace := trace w @
            Mutex_get CY_RTOS_NEVER_TIMEOUT (cy_rtos_get_mutex_rslt env (trace w) CY_RTOS_NEVER_TIMEOUT) #
            echo bs @ [Uart_putc (CHR 0x0A), Mutex_set]\<rparr>)"
proof -
  define w0 where "w0 = radar_presence_task_set_mute env True w"
  have rx0: "uart_rx w0 = map Rx bs @ rest" using assms(3) by (simp add: w0_def)
  have len: "length (kept bs) < length line"
    using length_kept_le[of bs] assms(1,2,5) by linarith
  then have len': "0 + length (kept bs) \<le> length line" by simp
  have loop: "terminal_ui_readline_loop (CHR 0x00) m 0 line w0 =
     Returns (length (kept bs), kept bs @ drop (length (kept bs)) line)
       (w0\<lparr>uart_rx := rest, trace := trace w0 @ echo bs\<rparr>)"
    using readline_loop_bytes[OF _ assms(4,5,6) rx0 len'] by simp
  have "drop (length (kept bs)) line = line ! length (kept bs) # drop (Suc (length (kept bs))) line"
    using len by (simp add: Cons_nth_drop_Suc)
  then have upd: "(kept bs @ drop (length (kept bs)) line)[length (kept bs) := CHR 0x00] =
      kept bs @ CHR 0x00 # drop (Suc (length (kept bs))) line"
    by (simp add: list_update_append)
  show ?thesis
    using assms(1) len upd
    by (simp add: terminal_ui_readline_def w0_def[symmetric] loop Let_def cyhal_uart_putc_def)
       (simp add: w0_def radar_presence_task_set_mute_def radar_presence_terminal_mutex_get_def
          radar_presence_terminal_mutex_release_def Let_def emit_def)
qed

subsection \<open>Lemmas on the radar task\<close>

lemma ok_run_RunningI:
  "trace w1 = trace w @ new \<Longrightarrow> list_all (\<lambda>e. \<not> fatal e \<and> P e) new \<Longrightarrow> ok_run P w (Running w1)"
  unfolding ok_run.simps by (rule exI[of _ new]) simp

lemma ok_run_HaltedI:
  "trace w1 = trace w @ pre @ e # diagnostic e \<Longrightarrow> list_all (\<lambda>e. \<not> fatal e \<and> P e) pre \<Longrightarrow>
   fatal e \<Longrightarrow> P e \<Longrightarrow> ok_run P w (Halted w1)"
  unfolding ok_run.simps by (rule exI[of _ pre], rule exI[of _ e]) simp

lemma ok_run_RunningE:
  assumes "ok_run P w (Running w1)"
  obtains new where "trace w1 = trace w @ new" and "list_all (\<lambda>e. \<not> fatal e \<and> P e) new"
  using assms unfolding ok_run.simps by (elim exE conjE)

lemma ok_run_HaltedE:
  assumes "ok_run P w (Halted w1)"
  obtains pre e where "trace w1 = trace w @ pre @ e # diagnostic e"
    and "list_all (\<lambda>e. \<not> fatal e \<and> P e) pre" and "fatal e" and "P e"
  using assms unfolding ok_run.simps by (elim exE conjE)

lemma ok_run_then:
  assumes "ok_run P w (Running w1)" and "ok_run P w1 st"
  shows "ok_run P w st"
proof -
  from assms(1) obtain new where n: "trace w1 = trace w @ new" "list_all (\<lambda>e. \<not> fatal e \<and> P e) new"
    by (rule ok_run_RunningE)
  show ?thesis
  proof (cases st)
    case (Running w2)
    with assms(2) obtain new2 where "trace w2 = trace w1 @ new2" "list_all (\<lambda>e. \<not> fatal e \<and> P e) new2"
      by (auto elim: ok_run_RunningE)
    with n have "trace w2 = trace w @ (new @ new2)" "list_all (\<lambda>e. \<not> fatal e \<and> P e) (new @ new2)"
      by simp_all
    then show ?thesis unfolding Running by (rule ok_run_RunningI)
  next
    case (Halted w2)
    with assms(2) obtain pre e where "trace w2 = trace w1 @ pre @ e # diagnostic e"
      "list_all (\<lambda>e. \<not> fatal e \<and> P e) pre" "fatal e" "P e"
      by (auto elim: ok_run_HaltedE)
    with n have "trace w2 = trace w @ (new @ pre) @ e # diagnostic e"
      "list_all (\<lambda>e. \<not> fatal e \<and> P e) (new @ pre)" "fatal e" "P e"
      by simp_all
    then show ?thesis unfolding Halted by (rule ok_run_HaltedI)
  qed
qed

lemma ok_run_steps:
  "(\<And>s w. s \<in> set steps \<Longrightarrow> ok_run P w (s w)) \<Longrightarrow> ok_run P w (run_steps steps w)"
proof (induction steps arbitrary: w)
  case Nil
  have "ok_run P w (Running w)" by (rule ok_run_RunningI[of _ _ "[]"]) simp_all
  then show ?case by simp
next
  case (Cons s ss)
  have s: "ok_run P w (s w)" using Cons.prems by simp
  show ?case
  proof (cases "s w")
    case (Running w1)
    have "ok_run P w1 (run_steps ss w1)" using Cons.IH Cons.prems by simp
    with s Running show ?thesis using ok_run_then[of P w w1] by simp
  next
    case (Halted w1)
    with s show ?thesis by simp
  qed
qed

lemma ok_run_asserting:
  assumes "\<And>w. call w = (f w, emit (mk (f w)) w)"
    and "\<And>r. fatal (mk r) = (r \<noteq> ok)" and "\<And>r. P (mk r)" and "\<And>r. diagnostic (mk r) = []"
  shows "ok_run P w (asserting ok call w)"
proof (cases "f w = ok")
  case True
  then have "asserting ok call w = Running (emit (mk ok) w)"
    by (simp add: asserting_def assms(1))
  moreover have "ok_run P w (Running (emit (mk ok) w))"
    by (rule ok_run_RunningI[of _ _ "[mk ok]"]) (simp_all add: assms)
  ultimately show ?thesis by simp
next
  case False
  then have "asserting ok call w = Halted (emit (mk (f w)) w)"
    by (simp add: asserting_def assms(1) CY_ASSERT_def)
  moreover have "ok_run P w (Halted (emit (mk (f w)) w))"
    using False by (intro ok_run_HaltedI[of _ _ "[]" "mk (f w)"]) (simp_all add: assms)
  ultimately show ?thesis by simp
qed

lemma ok_run_ignoring:
  assumes "\<And>w. call w = (f w, emit (mk (f w)) w)"
    and "\<And>r. \<not> fatal (mk r)" and "\<And>r. P (mk r)"
  shows "ok_run P w (ignoring call w)"
proof -
  have "ignoring call w = Running (emit (mk (f w)) w)" by (simp add: ignoring_def assms(1))
  moreover have "ok_run P w (Running (emit (mk (f w)) w))"
    by (rule ok_run_RunningI[of _ _ "[mk (f w)]"]) (simp_all add: assms)
  ultimately show ?thesis by simp
qed


lemma run_steps_append:
  "run_steps (a @ b) w = (case run_steps a w of Running w1 \<Rightarrow> run_steps b w1 | Halted w1 \<Rightarrow> Halted w1)"
  by (induction a arbitrary: w) (simp_all split: task_state.splits)

lemma peripheral_steps_ok:
  assumes "s \<in> set (take 10 (radar_task_bringup env))"
  shows "ok_run peripheral w (s w)"
proof -
  have a: "ok_run peripheral w (asserting CY_RSLT_SUCCESS (cy_rtos_init_mutex env) w)"
    by (rule ok_run_asserting[where mk = Mutex_init and f = "\<lambda>w. cy_rtos_init_mutex_rslt env (trace w)"])
       (simp_all add: cy_rtos_init_mutex_def Let_def peripheral_def)
  have b: "ok_run peripheral w (asserting CY_RSLT_SUCCESS (cyhal_gpio_init env p d m v) w)"
    if "p = LED_RGB_RED \<or> p = LED_RGB_GREEN \<or> p = LED_RGB_BLUE" for p d m v
    using that
    by (intro ok_run_asserting[where mk = "Gpio_init p d m v"
          and f = "\<lambda>w. cyhal_gpio_init_rslt env (trace w) p"])
       (simp_all add: cyhal_gpio_init_def Let_def peripheral_def)
  have c: "ok_run peripheral w (ignoring (cyhal_gpio_init env p d m v) w)"
    if "p \<noteq> LED_RGB_RED \<and> p \<noteq> LED_RGB_GREEN \<and> p \<noteq> LED_RGB_BLUE" for p d m v
    using that
    by (intro ok_run_ignoring[where mk = "Gpio_init p d m v"
          and f = "\<lambda>w. cyhal_gpio_init_rslt env (trace w) p"])
       (simp_all add: cyhal_gpio_init_def Let_def peripheral_def)
  have d: "ok_run peripheral w (asserting CY_RSLT_SUCCESS (cyhal_spi_init env) w)"
    by (rule ok_run_asserting[where mk = Spi_init and f = "\<lambda>w. cyhal_spi_init_rslt env (trace w)"])
       (simp_all add: cyhal_spi_init_def Let_def peripheral_def)
  have e: "ok_run peripheral w (asserting CY_RSLT_SUCCESS (cyhal_spi_set_frequency env hz) w)" for hz
    by (rule ok_run_asserting[where mk = "Spi_set_frequency hz"
          and f = "\<lambda>w. cyhal_spi_set_frequency_rslt env (trace w) hz"])
       (simp_all add: cyhal_spi_set_frequency_def Let_def peripheral_def)
  from assms show ?thesis
    by (auto simp add: radar_task_bringup_def intro: a b c d e)
qed

lemma config_steps_ok:
  assumes "s \<in> set (drop 11 (radar_task_bringup env))"
  shows "ok_run after_init w (s w)"
proof -
  have a: "ok_run after_init w
      (asserting MTB_RADAR_SENSING_SUCCESS (mtb_radar_sensing_register_callback env) w)"
    by (rule ok_run_asserting[where mk = Register_callback
          and f = "\<lambda>w. register_callback_rslt env (trace w)"])
       (simp_all add: mtb_radar_sensing_register_callback_def Let_def after_init_def)
  have b: "ok_run after_init w
      (asserting MTB_RADAR_SENSING_SUCCESS (mtb_radar_sensing_set_parameter env name val) w)"
    for name val
    by (rule ok_run_asserting[where mk = "Set_parameter name val"
          and f = "\<lambda>w. set_parameter_rslt env (trace w) name val"])
       (simp_all add: mtb_radar_sensing_set_parameter_def Let_def after_init_def)
  have c: "ok_run after_init w
      (asserting MTB_RADAR_SENSING_SUCCESS (mtb_radar_sensing_enable env) w)"
    by (rule ok_run_asserting[where mk = Sensing_enable
          and f = "\<lambda>w. sensing_enable_rslt env (trace w)"])
       (simp_all add: mtb_radar_sensing_enable_def Let_def after_init_def)
  from assms show ?thesis
    by (auto simp add: radar_task_bringup_def intro: a b c)
qed

lemma init_sensing_cases:
  "radar_task_init_sensing env w =
     (let r = sensing_init_rslt env (trace w)
      in if r \<noteq> MTB_RADAR_SENSING_SUCCESS
         then Halted (w\<lparr>trace := trace w @ [Sensing_init r, Printf sensing_init_error []]\<rparr>)
         else Running (w\<lparr>trace := trace w @ [Sensing_init r]\<rparr>))"
  by (simp add: radar_task_init_sensing_def mtb_radar_sensing_init_def Let_def CY_ASSERT_def
      printf_def emit_def)

lemma callback_effects:
  "\<exists>new. trace (radar_sensing_callback env event info w) = trace w @ new \<and>
         list_all callback_effect new"
  by (cases event)
     (simp_all add: radar_sensing_callback_def cyhal_gpio_write_def Let_def printf_def
        radar_presence_terminal_mutex_get_def radar_presence_terminal_mutex_release_def)

lemma callbacks_effects:
  "\<exists>new. trace (fold (\<lambda>(event, info). radar_sensing_callback env event info) evs w) =
           trace w @ new \<and> list_all callback_effect new"
proof (induction evs arbitrary: w)
  case Nil
  show ?case by simp
next
  case (Cons x evs)
  obtain event info where x: "x = (event, info)" by (cases x)
  obtain n1 where n1: "trace (radar_sensing_callback env event info w) = trace w @ n1"
    "list_all callback_effect n1"
    using callback_effects by blast
  obtain n2 where n2: "trace (fold (\<lambda>(event, info). radar_sensing_callback env event info) evs
        (radar_sensing_callback env event info w)) =
      trace (radar_sensing_callback env event info w) @ n2" "list_all callback_effect n2"
    using Cons.IH by blast
  show ?case
    by (rule exI[of _ "n1 @ n2"]) (simp add: x n1 n2)
qed

lemma callback_effect_simps [simp]:
  "callback_effect e \<Longrightarrow> \<not> fatal e"
  "callback_effect e \<Longrightarrow> \<not> is_sensing_init e"
  "callback_effect e \<Longrightarrow> \<not> is_process e"
  by (cases e; simp)+

lemma iteration_cases:
  "\<exists>cb ts r. list_all callback_effect cb \<and>
     (case radar_task_iteration env w of
        Running w2 \<Rightarrow> r = MTB_RADAR_SENSING_SUCCESS \<and>
          trace w2 = trace w @ cb @ [Sensing_process ts r, Task_delay]
      | Halted w2 \<Rightarrow> r \<noteq> MTB_RADAR_SENSING_SUCCESS \<and>
          trace w2 = trace w @ cb @ [Sensing_process ts r, Printf sensing_process_error []])"
proof -
  define ts where "ts = ifx_currenttime env w"
  define w1 where "w1 = fold (\<lambda>(event, info). radar_sensing_callback env event info)
      (process_events env (trace w) ts) w"
  obtain cb where cb: "trace w1 = trace w @ cb" "list_all callback_effect cb"
    unfolding w1_def using callbacks_effects by blast
  show ?thesis
    by (rule exI[of _ cb], rule exI[of _ ts], rule exI[of _ "process_rslt env (trace w1) ts"])
       (simp add: cb radar_task_iteration_def mtb_radar_sensing_process_def Let_def
          ts_def[symmetric] w1_def[symmetric] CY_ASSERT_def printf_def vTaskDelay_def)
qed

lemma list_all_callback:
  "list_all callback_effect cb \<Longrightarrow> list_all (\<lambda>e. \<not> fatal e) cb \<and> filter is_process cb = []"
  by (induction cb) simp_all

lemma radar_task_loop_ok: "loop_ok n w (radar_task_loop n env w)"
proof (induction n arbitrary: w)
  case 0
  show ?case by simp
next
  case (Suc n)
  obtain cb ts r where cb: "list_all callback_effect cb"
    and it: "case radar_task_iteration env w of
        Running w2 \<Rightarrow> r = MTB_RADAR_SENSING_SUCCESS \<and>
          trace w2 = trace w @ cb @ [Sensing_process ts r, Task_delay]
      | Halted w2 \<Rightarrow> r \<noteq> MTB_RADAR_SENSING_SUCCESS \<and>
          trace w2 = trace w @ cb @ [Sensing_process ts r, Printf sensing_process_error []]"
    using iteration_cases[where env = env and w = w] by blast
  note cb' = list_all_callback[OF cb]
  show ?case
  proof (cases "radar_task_iteration env w")
    case (Halted w2)
    with it have r: "r \<noteq> MTB_RADAR_SENSING_SUCCESS"
      and t: "trace w2 = trace w @ cb @ Sensing_process ts r # diagnostic (Sensing_process ts r)"
      by simp_all
    have "loop_ok (Suc n) w (Halted w2)"
      unfolding loop_ok.simps
      by (rule exI[of _ cb], rule exI[of _ "Sensing_process ts r"]) (simp add: t r cb')
    with Halted show ?thesis by simp
  next
    case (Running w2)
    with it have r: "r = MTB_RADAR_SENSING_SUCCESS"
      and t: "trace w2 = trace w @ cb @ [Sensing_process ts r, Task_delay]"
      by simp_all
    show ?thesis
    proof (cases "radar_task_loop n env w2")
      case R: (Running w3)
      with Suc.IH[of w2] obtain new where n: "trace w3 = trace w2 @ new"
        "list_all (\<lambda>e. \<not> fatal e) new" "length (filter is_process new) = n"
        by auto
      have "loop_ok (Suc n) w (Running w3)"
        unfolding loop_ok.simps
        by (rule exI[of _ "cb @ [Sensing_process ts r, Task_delay] @ new"])
           (simp add: n t r cb')
      with Running R show ?thesis by simp
    next
      case H: (Halted w3)
      with Suc.IH[of w2] obtain pre e where h: "trace w3 = trace w2 @ pre @ e # diagnostic e"
        "list_all (\<lambda>e. \<not> fatal e) pre" "fatal e" "\<not> is_sensing_init e"
        by auto
      have "loop_ok (Suc n) w (Halted w3)"
        unfolding loop_ok.simps
        by (rule exI[of _ "cb @ [Sensing_process ts r, Task_delay] @ pre"], rule exI[of _ e])
           (simp add: h t r cb')
      with Running H show ?thesis by simp
    qed
  qed
qed

lemma bringup_parts:
  "radar_task_bringup env =
     take 10 (radar_task_bringup env) @ [radar_task_init_sensing env] @ drop 11 (radar_task_bringup env)"
  by (simp add: radar_task_bringup_def)

lemma list_all_peripheral:
  "list_all (\<lambda>e. \<not> fatal e \<and> peripheral e) new \<Longrightarrow>
   list_all (\<lambda>e. \<not> fatal e) new \<and> list_all (\<lambda>x. \<not> engine_use x) new \<and> filter is_process new = []"
  by (induction new) (auto simp add: peripheral_def elim: engine_use.elims)

lemma list_all_after_init:
  "list_all (\<lambda>e. \<not> fatal e \<and> after_init e) new \<Longrightarrow>
   list_all (\<lambda>e. \<not> fatal e) new \<and> filter is_process new = []"
  by (induction new) (auto simp add: after_init_def)

subsection \<open>Lemmas on the command loop\<close>

lemma ui_loop_blocks:
  "uart_rx w = [] \<Longrightarrow> radar_presence_terminal_ui_loop env val w = Blocks w"
  by (subst radar_presence_terminal_ui_loop.simps) (simp add: cyhal_uart_getc_def)


lemma ui_loop_key:
  "uart_rx w = Rx key # rest \<Longrightarrow>
   radar_presence_terminal_ui_loop env val w =
     (case terminal_ui_switch env key val
             (w\<lparr>uart_rx := rest, trace := trace w @ [Uart_getc (Rx key)]\<rparr>) of
        Returns val1 w2 \<Rightarrow> radar_presence_terminal_ui_loop env val1 w2
      | Blocks w2 \<Rightarrow> Blocks w2
      | Faults w2 \<Rightarrow> Faults w2)"
  by (subst radar_presence_terminal_ui_loop.simps) (simp add: cyhal_uart_getc_def emit_def)

lemma printed_append: "printed (a @ b) = printed a @ printed b"
  by (induction a rule: printed.induct) simp_all

lemma callback_presence_in_trace:
  "trace (radar_sensing_callback env MTB_RADAR_SENSING_EVENT_PRESENCE_IN info w) =
     trace w @
     [Gpio_write LED_RGB_RED True, Gpio_write LED_RGB_GREEN False,
      Mutex_get 0 (cy_rtos_get_mutex_rslt env
         (trace w @ [Gpio_write LED_RGB_RED True, Gpio_write LED_RGB_GREEN False]) 0)] @
     (if cy_rtos_get_mutex_rslt env
           (trace w @ [Gpio_write LED_RGB_RED True, Gpio_write LED_RGB_GREEN False]) 0 = CY_RSLT_SUCCESS
      then [Printf presence_in_format
              [Arg_f (timestamp_seconds (fops env) info),
               Arg_f (f_sub (fops env) (distance info) (accuracy info)),
               Arg_f (f_add (fops env) (distance info) (accuracy info))],
            Mutex_set]
      else [])"
  by (simp add: radar_sensing_callback_def cyhal_gpio_write_def Let_def
      radar_presence_terminal_mutex_get_def radar_presence_terminal_mutex_release_def
      printf_def LED_STATE_ON_def LED_STATE_OFF_def)

lemma callback_presence_out_trace:
  "trace (radar_sensing_callback env MTB_RADAR_SENSING_EVENT_PRESENCE_OUT info w) =
     trace w @
     [Gpio_write LED_RGB_RED False, Gpio_write LED_RGB_GREEN True,
      Mutex_get 0 (cy_rtos_get_mutex_rslt env
         (trace w @ [Gpio_write LED_RGB_RED False, Gpio_write LED_RGB_GREEN True]) 0)] @
     (if cy_rtos_get_mutex_rslt env
           (trace w @ [Gpio_write LED_RGB_RED False, Gpio_write LED_RGB_GREEN True]) 0 = CY_RSLT_SUCCESS
      then [Printf presence_out_format [Arg_f (timestamp_seconds (fops env) info)], Mutex_set]
      else [])"
  by (simp add: radar_sensing_callback_def cyhal_gpio_write_def Let_def
      radar_presence_terminal_mutex_get_def radar_presence_terminal_mutex_release_def
      printf_def LED_STATE_ON_def LED_STATE_OFF_def)

subsection \<open>Lemmas on the console mutex\<close>










subsection \<open>Lemmas on the calls of the radar task\<close>

lemma length_bringup: "length (radar_task_bringup env) = 15"
  by (simp add: radar_task_bringup_def)

lemma below_15:
  "k < 15 \<Longrightarrow> k = 0 \<or> k = 1 \<or> k = 2 \<or> k = 3 \<or> k = 4 \<or> k = 5 \<or> k = 6 \<or> k = 7 \<or>
     k = 8 \<or> k = 9 \<or> k = 10 \<or> k = 11 \<or> k = 12 \<or> k = 13 \<or> k = (14::nat)"
  by arith

lemma bringup_step:
  assumes "k < 15"
  shows "(radar_task_bringup env ! k) w =
     (if fatal (bringup_call env k (trace w))
      then Halted (w\<lparr>trace := trace w @
             bringup_call env k (trace w) # diagnostic (bringup_call env k (trace w))\<rparr>)
      else Running (w\<lparr>trace := trace w @ [bringup_call env k (trace w)]\<rparr>))"
  using below_15[OF assms]
  by (elim disjE)
     (simp_all add: radar_task_bringup_def bringup_call_def asserting_def ignoring_def
        radar_task_init_sensing_def cy_rtos_init_mutex_def cyhal_gpio_init_def cyhal_spi_init_def
        cyhal_spi_set_frequency_def mtb_radar_sensing_init_def
        mtb_radar_sensing_register_callback_def mtb_radar_sensing_set_parameter_def
        mtb_radar_sensing_enable_def emit_def printf_def Let_def CY_ASSERT_def
        LED_STATE_OFF_def SPI_FREQUENCY_def)

lemma run_steps_at:
  assumes "k < length b" and "run_steps (take k b) w = Running w1"
  shows "(b ! k) w1 = Halted w2 \<Longrightarrow> run_steps b w = Halted w2"
    and "(b ! k) w1 = Running w2 \<Longrightarrow> run_steps (take (Suc k) b) w = Running w2"
proof -
  have b: "b = take k b @ (b ! k) # drop (Suc k) b"
    using assms(1) by (simp add: id_take_nth_drop[symmetric])
  show "run_steps b w = Halted w2" if "(b ! k) w1 = Halted w2"
    by (subst b) (simp add: run_steps_append assms(2) that[simplified])
  show "run_steps (take (Suc k) b) w = Running w2" if "(b ! k) w1 = Running w2"
    using assms(1)
    by (simp add: take_Suc_conv_app_nth run_steps_append assms(2) that[simplified])
qed

lemma radar_task_loop_add:
  "radar_task_loop (n + j) env w =
     (case radar_task_loop n env w of
        Running w1 \<Rightarrow> radar_task_loop j env w1
      | Halted w1 \<Rightarrow> Halted w1)"
  by (induction n arbitrary: w) (simp_all split: task_state.splits)

lemma iteration_eq:
  "radar_task_iteration env w =
     (let ts = ifx_currenttime env w;
          w2 = fold (\<lambda>(event, info). radar_sensing_callback env event info)
                    (process_events env (trace w) ts) w;
          r = process_rslt env (trace w2) ts
      in if r \<noteq> MTB_RADAR_SENSING_SUCCESS
         then Halted (w2\<lparr>trace := trace w2 @
                [Sensing_process ts r, Printf sensing_process_error []]\<rparr>)
         else Running (w2\<lparr>trace := trace w2 @ [Sensing_process ts r, Task_delay]\<rparr>))"
  by (simp add: radar_task_iteration_def mtb_radar_sensing_process_def Let_def CY_ASSERT_def
      printf_def vTaskDelay_def emit_def)

lemma bringup_call_at:
  assumes "k < length (radar_task_bringup env)"
    and "run_steps (take k (radar_task_bringup env)) w = Running w1"
  shows "if fatal (bringup_call env k (trace w1))
     then \<forall>n. radar_task n env w =
            Halted (w1\<lparr>trace := trace w1 @
              bringup_call env k (trace w1) # diagnostic (bringup_call env k (trace w1))\<rparr>)
     else run_steps (take (Suc k) (radar_task_bringup env)) w =
            Running (w1\<lparr>trace := trace w1 @ [bringup_call env k (trace w1)]\<rparr>)"
proof -
  have k: "k < 15" using assms(1) by (simp add: length_bringup)
  note st = bringup_step[OF k, of env w1]
  show ?thesis
  proof (cases "fatal (bringup_call env k (trace w1))")
    case True
    with st have "(radar_task_bringup env ! k) w1 =
        Halted (w1\<lparr>trace := trace w1 @
              bringup_call env k (trace w1) # diagnostic (bringup_call env k (trace w1))\<rparr>)"
      by simp
    from run_steps_at(1)[OF assms this] True show ?thesis
      by (simp add: radar_task_def)
  next
    case False
    with st have "(radar_task_bringup env ! k) w1 =
        Running (w1\<lparr>trace := trace w1 @ [bringup_call env k (trace w1)]\<rparr>)"
      by simp
    from run_steps_at(2)[OF assms this] False show ?thesis by simp
  qed
qed

lemma process_step_at:
  assumes "run_steps (radar_task_bringup env) w = Running w0"
    and "radar_task_loop n env w0 = Running w1"
  shows "let ts = ifx_currenttime env w1;
          w2 = fold (\<lambda>(event, info). radar_sensing_callback env event info)
                    (process_events env (trace w1) ts) w1;
          r = process_rslt env (trace w2) ts
      in if r \<noteq> MTB_RADAR_SENSING_SUCCESS
         then \<forall>j. radar_task (Suc n + j) env w =
                Halted (w2\<lparr>trace := trace w2 @
                  [Sensing_process ts r, Printf sensing_process_error []]\<rparr>)
         else radar_task (Suc n) env w =
                Running (w2\<lparr>trace := trace w2 @ [Sensing_process ts r, Task_delay]\<rparr>)"
proof -
  have "radar_task (Suc n + j) env w =
      (case radar_task_iteration env w1 of
         Running w3 \<Rightarrow> radar_task_loop j env w3
       | Halted w3 \<Rightarrow> Halted w3)" for j
  proof -
    have "Suc n + j = n + Suc j" by simp
    then show ?thesis
      by (simp only: radar_task_def assms(1) task_state.case radar_task_loop_add[of n "Suc j"]
          assms(2) radar_task_loop.simps)
  qed
  note t = this
  show ?thesis
    using t[of 0] t
    by (simp add: iteration_eq Let_def)
qed

lemma radar_task_trace_shape:
  "halts_at_first_failure n w (radar_task n env w)"
proof -
  let ?b = "radar_task_bringup env"
  have task: "radar_task n env w =
      (case run_steps (take 10 ?b) w of
         Running wa \<Rightarrow>
           (case radar_task_init_sensing env wa of
              Running wb \<Rightarrow>
                (case run_steps (drop 11 ?b) wb of
                   Running wc \<Rightarrow> radar_task_loop n env wc
                 | Halted wc \<Rightarrow> Halted wc)
            | Halted wb \<Rightarrow> Halted wb)
       | Halted wa \<Rightarrow> Halted wa)"
    unfolding radar_task_def
    by (subst bringup_parts) (simp add: run_steps_append split: task_state.splits)
  have pa: "ok_run peripheral w (run_steps (take 10 ?b) w)"
    by (rule ok_run_steps) (rule peripheral_steps_ok)
  show ?thesis
  proof (cases "run_steps (take 10 ?b) w")
    case (Halted wa)
    with pa obtain pre e where h: "trace wa = trace w @ pre @ e # diagnostic e"
      "list_all (\<lambda>e. \<not> fatal e \<and> peripheral e) pre" "fatal e" "peripheral e"
      by (auto elim: ok_run_HaltedE)
    have "halts_at_first_failure n w (Halted wa)"
      unfolding halts_at_first_failure.simps
      using h list_all_peripheral[OF h(2)]
      by (intro exI[of _ pre] exI[of _ e]) (simp add: peripheral_def)
    with Halted show ?thesis by (simp add: task)
  next
    case (Running wa)
    with pa obtain na where a: "trace wa = trace w @ na"
      "list_all (\<lambda>e. \<not> fatal e \<and> peripheral e) na"
      by (auto elim: ok_run_RunningE)
    note a' = list_all_peripheral[OF a(2)]
    define r where "r = sensing_init_rslt env (trace wa)"
    show ?thesis
    proof (cases "r = MTB_RADAR_SENSING_SUCCESS")
      case False
      then have i: "radar_task_init_sensing env wa =
          Halted (wa\<lparr>trace := trace wa @ [Sensing_init r, Printf sensing_init_error []]\<rparr>)"
        by (simp add: init_sensing_cases r_def)
      have "halts_at_first_failure n w
          (Halted (wa\<lparr>trace := trace wa @ [Sensing_init r, Printf sensing_init_error []]\<rparr>))"
        unfolding halts_at_first_failure.simps
        using a' False
        by (intro exI[of _ na] exI[of _ "Sensing_init r"]) (simp add: a(1))
      with Running i show ?thesis by (simp add: task)
    next
      case True
      define wb where "wb = wa\<lparr>trace := trace wa @ [Sensing_init r]\<rparr>"
      have i: "radar_task_init_sensing env wa = Running wb"
        using True by (simp add: init_sensing_cases r_def wb_def)
      have b: "trace wb = trace w @ na @ [Sensing_init r]" by (simp add: wb_def a(1))
      have pc: "ok_run after_init wb (run_steps (drop 11 ?b) wb)"
        by (rule ok_run_steps) (rule config_steps_ok)
      show ?thesis
      proof (cases "run_steps (drop 11 ?b) wb")
        case (Halted wc)
        with pc obtain pre e where h: "trace wc = trace wb @ pre @ e # diagnostic e"
          "list_all (\<lambda>e. \<not> fatal e \<and> after_init e) pre" "fatal e" "after_init e"
          by (auto elim: ok_run_HaltedE)
        have "halts_at_first_failure n w (Halted wc)"
          unfolding halts_at_first_failure.simps
          using h(3,4) a' list_all_after_init[OF h(2)] True
          by (intro exI[of _ "na @ [Sensing_init r] @ pre"] exI[of _ e])
             (simp add: h(1) b after_init_def)
        with Running i Halted show ?thesis by (simp add: task)
      next
        case Rc: (Running wc)
        with pc obtain nc where c: "trace wc = trace wb @ nc"
          "list_all (\<lambda>e. \<not> fatal e \<and> after_init e) nc"
          by (auto elim: ok_run_RunningE)
        note c' = list_all_after_init[OF c(2)]
        have l: "loop_ok n wc (radar_task_loop n env wc)" by (rule radar_task_loop_ok)
        show ?thesis
        proof (cases "radar_task_loop n env wc")
          case (Halted wd)
          with l obtain pre e where h: "trace wd = trace wc @ pre @ e # diagnostic e"
            "list_all (\<lambda>e. \<not> fatal e) pre" "fatal e" "\<not> is_sensing_init e"
            by auto
          have "halts_at_first_failure n w (Halted wd)"
            unfolding halts_at_first_failure.simps
            using h(2,3,4) a' c' True
            by (intro exI[of _ "na @ [Sensing_init r] @ nc @ pre"] exI[of _ e])
               (simp add: h(1) c(1) b)
          with Running i Rc Halted show ?thesis by (simp add: task)
        next
          case Rd: (Running wd)
          with l obtain nd where d: "trace wd = trace wc @ nd"
            "list_all (\<lambda>e. \<not> fatal e) nd" "length (filter is_process nd) = n"
            by auto
          have "halts_at_first_failure n w (Running wd)"
            unfolding halts_at_first_failure.simps
            using d(2,3) a' c' True
            by (intro exI[of _ "na @ [Sensing_init r] @ nc @ nd"])
               (simp add: d(1) c(1) b)
          with Running i Rc Rd show ?thesis by (simp add: task)
        qed
      qed
    qed
  qed
qed

lemmas bringup_eval =
  radar_task_bringup_def asserting_def ignoring_def
  radar_task_init_sensing_def cy_rtos_init_mutex_def cyhal_gpio_init_def cyhal_spi_init_def
  cyhal_spi_set_frequency_def mtb_radar_sensing_init_def
  mtb_radar_sensing_register_callback_def mtb_radar_sensing_set_parameter_def
  mtb_radar_sensing_enable_def scripted_env_def emit_def Let_def printf_def CY_ASSERT_def
  CY_RSLT_SUCCESS_def MTB_RADAR_SENSING_SUCCESS_def LED_STATE_OFF_def SPI_FREQUENCY_def

section \<open>The properties\<close>




text \<open>
  C2 (the code departs from it).  The claim: bring-up sets the maximum presence range to
  its documented default 2.0 and the sensitivity to medium, before enabling.  With every
  call succeeding, the bring-up of \<^verbatim>\<open>radar_task\<close> makes exactly the calls below: the
  range is set to the string 1.0, the sensitivity to medium, and then the context is
  enabled.
\<close>

theorem bringup_sets_range_max_to_1_0:
  "radar_task 0 (scripted_env (\<lambda>tr. 0) (\<lambda>tr. [])) \<lparr>trace = [], uart_rx = []\<rparr> =
     Running
       \<lparr>trace =
          [Mutex_init 0,
           Gpio_init LED_RGB_RED CYHAL_GPIO_DIR_OUTPUT CYHAL_GPIO_DRIVE_STRONG False 0,
           Gpio_init LED_RGB_GREEN CYHAL_GPIO_DIR_OUTPUT CYHAL_GPIO_DRIVE_STRONG False 0,
           Gpio_init LED_RGB_BLUE CYHAL_GPIO_DIR_OUTPUT CYHAL_GPIO_DRIVE_STRONG False 0,
           Gpio_init CYBSP_GPIO11 CYHAL_GPIO_DIR_OUTPUT CYHAL_GPIO_DRIVE_STRONG True 0,
           Gpio_init CYBSP_GPIO5 CYHAL_GPIO_DIR_OUTPUT CYHAL_GPIO_DRIVE_STRONG True 0,
           Gpio_init CYBSP_GPIO10 CYHAL_GPIO_DIR_INPUT CYHAL_GPIO_DRIVE_PULLDOWN False 0,
           Gpio_init CYBSP_SPI_CS CYHAL_GPIO_DIR_OUTPUT CYHAL_GPIO_DRIVE_STRONG True 0,
           Spi_init 0,
           Spi_set_frequency 25000000 0,
           Sensing_init 0,
           Register_callback 0,
           Set_parameter ''radar_presence_range_max'' ''1.0'' 0,
           Set_parameter ''radar_presence_sensitivity'' ''medium'' 0,
           Sensing_enable 0],
        uart_rx = []\<rparr>"
  by (simp add: radar_task_def radar_task_bringup_def asserting_def ignoring_def
      radar_task_init_sensing_def cy_rtos_init_mutex_def cyhal_gpio_init_def cyhal_spi_init_def
      cyhal_spi_set_frequency_def mtb_radar_sensing_init_def
      mtb_radar_sensing_register_callback_def mtb_radar_sensing_set_parameter_def
      mtb_radar_sensing_enable_def scripted_env_def emit_def Let_def CY_RSLT_SUCCESS_def
      MTB_RADAR_SENSING_SUCCESS_def LED_STATE_OFF_def SPI_FREQUENCY_def)

text \<open>
  C3.  The line editor.  Let the UART deliver the bytes \<open>bs\<close> and then \<open>rest\<close>, where
  \<open>bs\<close> is what the loop reads: it has no carriage return before its last byte, and it
  ends with a carriage return within the first \<open>m - 1\<close> bytes or is \<open>m - 1\<close> bytes
  long.  Then \<^verbatim>\<open>terminal_ui_readline\<close> returns; every byte of \<open>bs\<close> was read and
  echoed; the buffer holds the bytes of \<open>bs\<close> that are not whitespace, in order,
  followed by NUL; a newline was sent after the echo; and \<open>rest\<close> was not read.  The
  bytes 1 . 5 CR give the string 1.5.
\<close>

theorem readline_line_edit:
  assumes "0 < m" and "nat m \<le> length line" and "uart_rx w = map Rx bs @ rest"
    and "CHR 0x0D \<notin> set (butlast bs)" and "int (length bs) \<le> m - 1"
    and "(bs \<noteq> [] \<and> last bs = CHR 0x0D) \<or> int (length bs) = m - 1"
  shows "terminal_ui_readline env line m w =
     Returns (kept bs @ CHR 0x00 # drop (Suc (length (kept bs))) line)
       (w\<lparr>uart_rx := rest,
          trace := trace w @
            Mutex_get CY_RTOS_NEVER_TIMEOUT (cy_rtos_get_mutex_rslt env (trace w) CY_RTOS_NEVER_TIMEOUT) #
            echo bs @ [Uart_putc (CHR 0x0A), Mutex_set]\<rparr>)"
  using assms by (rule readline_bytes)

theorem readline_line_edit_example:
  "terminal_ui_readline (scripted_env (\<lambda>tr. 0) (\<lambda>tr. [])) (replicate 256 (CHR ''#'')) 256
       \<lparr>trace = [], uart_rx = [Rx (CHR ''1''), Rx (CHR ''.''), Rx (CHR ''5''), Rx (CHR 0x0D)]\<rparr> =
     Returns (''1.5'' @ CHR 0x00 # replicate 252 (CHR ''#''))
       \<lparr>trace =
          [Mutex_get CY_RTOS_NEVER_TIMEOUT 0,
           Uart_getc (Rx (CHR ''1'')), Uart_putc (CHR ''1''),
           Uart_getc (Rx (CHR ''.'')), Uart_putc (CHR ''.''),
           Uart_getc (Rx (CHR ''5'')), Uart_putc (CHR ''5''),
           Uart_getc (Rx (CHR 0x0D)), Uart_putc (CHR 0x0D),
           Uart_putc (CHR 0x0A), Mutex_set],
        uart_rx = []\<rparr>"
  using readline_line_edit[of 256 "replicate 256 (CHR ''#'')"
      "\<lparr>trace = [], uart_rx = [Rx (CHR ''1''), Rx (CHR ''.''), Rx (CHR ''5''), Rx (CHR 0x0D)]\<rparr>"
      "[CHR ''1'', CHR ''.'', CHR ''5'', CHR 0x0D]" "[]" "scripted_env (\<lambda>tr. 0) (\<lambda>tr. [])"]
  by (simp add: kept_def echo_def isspace_def scripted_env_def)

text \<open>
  C4.  On a PresenceIn event the callback writes the presence indicator on and the
  absence indicator off, whatever happens next; then it asks for the console mutex with
  timeout 0; if that returns success it prints one line, formatted by
  \<^verbatim>\<open>%.3f: Presence IN %.2f-%.2f\<close> from the timestamp divided by 1000, distance minus
  accuracy and distance plus accuracy, and releases the mutex; on any other result it
  does nothing more.  It has no other effect.
\<close>

theorem callback_presence_in:
  "let r = cy_rtos_get_mutex_rslt env
             (trace w @ [Gpio_write LED_RGB_RED True, Gpio_write LED_RGB_GREEN False]) 0
   in radar_sensing_callback env MTB_RADAR_SENSING_EVENT_PRESENCE_IN info w =
      w\<lparr>trace := trace w @
         [Gpio_write LED_RGB_RED True, Gpio_write LED_RGB_GREEN False, Mutex_get 0 r] @
         (if r = CY_RSLT_SUCCESS
          then [Printf ''%.3f: Presence IN %.2f-%.2f\<newline>''
                  [Arg_f (f_div (fops env) (f_cast (fops env) (timestamp info))
                            (f_cast (fops env) 1000)),
                   Arg_f (f_sub (fops env) (distance info) (accuracy info)),
                   Arg_f (f_add (fops env) (distance info) (accuracy info))],
                Mutex_set]
          else [])\<rparr>"
  by (simp add: radar_sensing_callback_def cyhal_gpio_write_def emit_def Let_def
      radar_presence_terminal_mutex_get_def radar_presence_terminal_mutex_release_def
      printf_def presence_in_format_def timestamp_seconds_def LED_STATE_ON_def LED_STATE_OFF_def)

text \<open>
  C5.  PresenceIn followed by PresenceOut.  After the first event the presence indicator
  is on and the absence indicator off; after the second the presence indicator is off and
  the absence indicator on.  Each event prints its line exactly when its acquisition of
  the mutex succeeds: both lines in order when both succeed, only the second when the
  first acquisition fails.  The callback is a total function: it always completes.
\<close>

theorem presence_in_then_out:
  "let w1 = radar_sensing_callback env MTB_RADAR_SENSING_EVENT_PRESENCE_IN info1 w;
       w2 = radar_sensing_callback env MTB_RADAR_SENSING_EVENT_PRESENCE_OUT info2 w1;
       r1 = cy_rtos_get_mutex_rslt env
              (trace w @ [Gpio_write LED_RGB_RED True, Gpio_write LED_RGB_GREEN False]) 0;
       r2 = cy_rtos_get_mutex_rslt env
              (trace w1 @ [Gpio_write LED_RGB_RED False, Gpio_write LED_RGB_GREEN True]) 0
   in gpio_level LED_RGB_RED (trace w1) \<and> \<not> gpio_level LED_RGB_GREEN (trace w1) \<and>
      \<not> gpio_level LED_RGB_RED (trace w2) \<and> gpio_level LED_RGB_GREEN (trace w2) \<and>
      printed (trace w2) = printed (trace w) @
        (if r1 = CY_RSLT_SUCCESS
         then [(''%.3f: Presence IN %.2f-%.2f\<newline>'',
                [Arg_f (f_div (fops env) (f_cast (fops env) (timestamp info1))
                          (f_cast (fops env) 1000)),
                 Arg_f (f_sub (fops env) (distance info1) (accuracy info1)),
                 Arg_f (f_add (fops env) (distance info1) (accuracy info1))])]
         else []) @
        (if r2 = CY_RSLT_SUCCESS
         then [(''%.3f: Presence OUT\<newline>'',
                [Arg_f (f_div (fops env) (f_cast (fops env) (timestamp info2))
                          (f_cast (fops env) 1000))])]
         else [])"
  unfolding Let_def callback_presence_out_trace callback_presence_in_trace
  by (simp add: printed_append gpio_level_def presence_in_format_def presence_out_format_def
      timestamp_seconds_def)

theorem presence_in_then_out_scripted:
  "let env = scripted_env (\<lambda>tr. if length tr = 2 then 1 else 0) (\<lambda>tr. []);
       w = \<lparr>trace = [], uart_rx = []\<rparr>;
       w1 = radar_sensing_callback env MTB_RADAR_SENSING_EVENT_PRESENCE_IN
              \<lparr>timestamp = 1500, distance = 2.0, accuracy = 0.3\<rparr> w;
       w2 = radar_sensing_callback env MTB_RADAR_SENSING_EVENT_PRESENCE_OUT
              \<lparr>timestamp = 4000, distance = 0, accuracy = 0\<rparr> w1
   in gpio_level LED_RGB_RED (trace w1) \<and> \<not> gpio_level LED_RGB_GREEN (trace w1) \<and>
      \<not> gpio_level LED_RGB_RED (trace w2) \<and> gpio_level LED_RGB_GREEN (trace w2) \<and>
      printed (trace w2) = [(''%.3f: Presence OUT\<newline>'', [Arg_f 4])]"
  using presence_in_then_out[of "scripted_env (\<lambda>tr. if length tr = 2 then 1 else 0) (\<lambda>tr. [])"
      "\<lparr>timestamp = 1500, distance = 2.0, accuracy = 0.3\<rparr>" "\<lparr>trace = [], uart_rx = []\<rparr>"
      "\<lparr>timestamp = 4000, distance = 0, accuracy = 0\<rparr>"]
  by (simp add: Let_def callback_presence_in_trace scripted_env_def real_ops_def
      CY_RSLT_SUCCESS_def)



text \<open>
  C7 (corrected).  As stated the claim fails: the results of the four control-line
  initialisations (reset, LDO enable, interrupt request, chip select) are not looked at,
  and the task runs on when one of them fails.  What holds, for every environment:
  the bring-up makes its fifteen calls in order, each with the result the environment
  gives it; when a call whose result is checked (mutex initialisation, the three
  indicator initialisations, SPI initialisation and frequency, engine initialisation,
  callback registration, the two parameter settings, enable) returns non-success, the
  task is halted from then on, at every later observation, its last effects being that
  call and, for the engine initialisation, the diagnostic line; nothing is retried and
  nothing else is called.  In every turn of the loop the task calls the process step
  with the current time; when the environment returns non-success for it, the task
  prints the diagnostic line and is halted from then on; otherwise it delays and goes
  on.  At every observation the effects of a halted task end with the first failed
  checked call and its diagnostic, and before a failed engine initialisation no call of
  the engine was made.
\<close>

theorem radar_task_halts_on_checked_failure:
  "(\<forall>k w1. k < length (radar_task_bringup env) \<longrightarrow>
      run_steps (take k (radar_task_bringup env)) w = Running w1 \<longrightarrow>
      (if fatal (bringup_call env k (trace w1))
       then \<forall>j. radar_task j env w =
              Halted (w1\<lparr>trace := trace w1 @
                bringup_call env k (trace w1) # diagnostic (bringup_call env k (trace w1))\<rparr>)
       else run_steps (take (Suc k) (radar_task_bringup env)) w =
              Running (w1\<lparr>trace := trace w1 @ [bringup_call env k (trace w1)]\<rparr>))) \<and>
   (\<forall>i w0 w1. run_steps (radar_task_bringup env) w = Running w0 \<longrightarrow>
      radar_task_loop i env w0 = Running w1 \<longrightarrow>
      (let ts = ifx_currenttime env w1;
           w2 = fold (\<lambda>(event, info). radar_sensing_callback env event info)
                     (process_events env (trace w1) ts) w1;
           r = process_rslt env (trace w2) ts
       in if r \<noteq> MTB_RADAR_SENSING_SUCCESS
          then \<forall>j. radar_task (Suc i + j) env w =
                 Halted (w2\<lparr>trace := trace w2 @
                   [Sensing_process ts r, Printf sensing_process_error []]\<rparr>)
          else radar_task (Suc i) env w =
                 Running (w2\<lparr>trace := trace w2 @ [Sensing_process ts r, Task_delay]\<rparr>))) \<and>
   halts_at_first_failure n w (radar_task n env w)"
  using bringup_call_at process_step_at radar_task_trace_shape by blast

theorem radar_task_halts_on_engine_init_and_process_failure:
  "radar_task 2 (scripted_env (\<lambda>tr. if length tr = 10 then 1 else 0) (\<lambda>tr. []))
        \<lparr>trace = [], uart_rx = []\<rparr> =
     Halted
       \<lparr>trace =
          [Mutex_init 0,
           Gpio_init LED_RGB_RED CYHAL_GPIO_DIR_OUTPUT CYHAL_GPIO_DRIVE_STRONG False 0,
           Gpio_init LED_RGB_GREEN CYHAL_GPIO_DIR_OUTPUT CYHAL_GPIO_DRIVE_STRONG False 0,
           Gpio_init LED_RGB_BLUE CYHAL_GPIO_DIR_OUTPUT CYHAL_GPIO_DRIVE_STRONG False 0,
           Gpio_init CYBSP_GPIO11 CYHAL_GPIO_DIR_OUTPUT CYHAL_GPIO_DRIVE_STRONG True 0,
           Gpio_init CYBSP_GPIO5 CYHAL_GPIO_DIR_OUTPUT CYHAL_GPIO_DRIVE_STRONG True 0,
           Gpio_init CYBSP_GPIO10 CYHAL_GPIO_DIR_INPUT CYHAL_GPIO_DRIVE_PULLDOWN False 0,
           Gpio_init CYBSP_SPI_CS CYHAL_GPIO_DIR_OUTPUT CYHAL_GPIO_DRIVE_STRONG True 0,
           Spi_init 0,
           Spi_set_frequency 25000000 0,
           Sensing_init 1,
           Printf ''ifx_radar_sensing_init error - Radar Wingboard not connected?\<newline>'' []],
        uart_rx = []\<rparr> \<and>
   radar_task (Suc 0 + 3) (scripted_env (\<lambda>tr. if length tr = 15 then 1 else 0) (\<lambda>tr. []))
        \<lparr>trace = [], uart_rx = []\<rparr> =
     Halted
       \<lparr>trace =
          [Mutex_init 0,
           Gpio_init LED_RGB_RED CYHAL_GPIO_DIR_OUTPUT CYHAL_GPIO_DRIVE_STRONG False 0,
           Gpio_init LED_RGB_GREEN CYHAL_GPIO_DIR_OUTPUT CYHAL_GPIO_DRIVE_STRONG False 0,
           Gpio_init LED_RGB_BLUE CYHAL_GPIO_DIR_OUTPUT CYHAL_GPIO_DRIVE_STRONG False 0,
           Gpio_init CYBSP_GPIO11 CYHAL_GPIO_DIR_OUTPUT CYHAL_GPIO_DRIVE_STRONG True 0,
           Gpio_init CYBSP_GPIO5 CYHAL_GPIO_DIR_OUTPUT CYHAL_GPIO_DRIVE_STRONG True 0,
           Gpio_init CYBSP_GPIO10 CYHAL_GPIO_DIR_INPUT CYHAL_GPIO_DRIVE_PULLDOWN False 0,
           Gpio_init CYBSP_SPI_CS CYHAL_GPIO_DIR_OUTPUT CYHAL_GPIO_DRIVE_STRONG True 0,
           Spi_init 0,
           Spi_set_frequency 25000000 0,
           Sensing_init 0,
           Register_callback 0,
           Set_parameter ''radar_presence_range_max'' ''1.0'' 0,
           Set_parameter ''radar_presence_sensitivity'' ''medium'' 0,
           Sensing_enable 0,
           Sensing_process 15 1,
           Printf ''ifx_radar_sensing_process error\<newline>'' []],
        uart_rx = []\<rparr>"
proof -
  let ?e1 = "scripted_env (\<lambda>tr. if length tr = 10 then 1 else 0) (\<lambda>tr. [])"
  let ?e2 = "scripted_env (\<lambda>tr. if length tr = 15 then 1 else 0) (\<lambda>tr. [])"
  let ?w = "\<lparr>trace = [] :: real effect list, uart_rx = []\<rparr>"
  let ?w10 = "\<lparr>trace =
          [Mutex_init 0,
           Gpio_init LED_RGB_RED CYHAL_GPIO_DIR_OUTPUT CYHAL_GPIO_DRIVE_STRONG False 0,
           Gpio_init LED_RGB_GREEN CYHAL_GPIO_DIR_OUTPUT CYHAL_GPIO_DRIVE_STRONG False 0,
           Gpio_init LED_RGB_BLUE CYHAL_GPIO_DIR_OUTPUT CYHAL_GPIO_DRIVE_STRONG False 0,
           Gpio_init CYBSP_GPIO11 CYHAL_GPIO_DIR_OUTPUT CYHAL_GPIO_DRIVE_STRONG True 0,
           Gpio_init CYBSP_GPIO5 CYHAL_GPIO_DIR_OUTPUT CYHAL_GPIO_DRIVE_STRONG True 0,
           Gpio_init CYBSP_GPIO10 CYHAL_GPIO_DIR_INPUT CYHAL_GPIO_DRIVE_PULLDOWN False 0,
           Gpio_init CYBSP_SPI_CS CYHAL_GPIO_DIR_OUTPUT CYHAL_GPIO_DRIVE_STRONG True 0,
           Spi_init 0,
           Spi_set_frequency 25000000 (0 :: cy_rslt_t) :: real effect],
        uart_rx = []\<rparr>"
  let ?w15 = "\<lparr>trace =
          [Mutex_init 0,
           Gpio_init LED_RGB_RED CYHAL_GPIO_DIR_OUTPUT CYHAL_GPIO_DRIVE_STRONG False 0,
           Gpio_init LED_RGB_GREEN CYHAL_GPIO_DIR_OUTPUT CYHAL_GPIO_DRIVE_STRONG False 0,
           Gpio_init LED_RGB_BLUE CYHAL_GPIO_DIR_OUTPUT CYHAL_GPIO_DRIVE_STRONG False 0,
           Gpio_init CYBSP_GPIO11 CYHAL_GPIO_DIR_OUTPUT CYHAL_GPIO_DRIVE_STRONG True 0,
           Gpio_init CYBSP_GPIO5 CYHAL_GPIO_DIR_OUTPUT CYHAL_GPIO_DRIVE_STRONG True 0,
           Gpio_init CYBSP_GPIO10 CYHAL_GPIO_DIR_INPUT CYHAL_GPIO_DRIVE_PULLDOWN False 0,
           Gpio_init CYBSP_SPI_CS CYHAL_GPIO_DIR_OUTPUT CYHAL_GPIO_DRIVE_STRONG True 0,
           Spi_init 0,
           Spi_set_frequency 25000000 0,
           Sensing_init 0,
           Register_callback 0,
           Set_parameter ''radar_presence_range_max'' ''1.0'' 0,
           Set_parameter ''radar_presence_sensitivity'' ''medium'' 0,
           Sensing_enable (0 :: cy_rslt_t) :: real effect],
        uart_rx = []\<rparr>"
  have k: "10 < length (radar_task_bringup ?e1)" by (simp add: radar_task_bringup_def)
  have pre: "run_steps (take 10 (radar_task_bringup ?e1)) ?w = Running ?w10"
    by (simp add: bringup_eval)
  have f: "fatal (bringup_call ?e1 10 (trace ?w10))"
    by (simp add: bringup_call_def scripted_env_def MTB_RADAR_SENSING_SUCCESS_def)
  note a = radar_task_halts_on_checked_failure[of ?e1 ?w, THEN conjunct1, rule_format, OF k pre]
  have one: "radar_task 2 ?e1 ?w =
      Halted (?w10\<lparr>trace := trace ?w10 @
         bringup_call ?e1 10 (trace ?w10) # diagnostic (bringup_call ?e1 10 (trace ?w10))\<rparr>)"
    using a f by simp
  have up: "run_steps (radar_task_bringup ?e2) ?w = Running ?w15"
    by (simp add: bringup_eval)
  have l0: "radar_task_loop 0 ?e2 ?w15 = Running ?w15" by simp
  note b = radar_task_halts_on_checked_failure[of ?e2 ?w, THEN conjunct2, THEN conjunct1,
      rule_format, OF up l0]
  have ts: "ifx_currenttime ?e2 ?w15 = 15"
    by (simp add: ifx_currenttime_def scripted_env_def)
  have all: "\<forall>j. radar_task (Suc 0 + j) ?e2 ?w =
      Halted (?w15\<lparr>trace := trace ?w15 @
         [Sensing_process 15 1, Printf sensing_process_error []]\<rparr>)"
    using b unfolding Let_def ts
    by (simp add: scripted_env_def MTB_RADAR_SENSING_SUCCESS_def)
  have two: "radar_task (Suc 0 + 3) ?e2 ?w =
      Halted (?w15\<lparr>trace := trace ?w15 @
         [Sensing_process 15 1, Printf sensing_process_error []]\<rparr>)"
    using all by (rule spec)
  show ?thesis
    unfolding one two
    by (simp add: bringup_call_def scripted_env_def sensing_init_error_def
        sensing_process_error_def)
qed

text \<open>C7, the counterexample: the initialisation of the reset line returns a failure, every
  other call succeeds.  The task completes its bring-up and is running.\<close>

theorem radar_task_runs_on_after_reset_line_failure:
  "radar_task 0 (scripted_env (\<lambda>tr. if length tr = 4 then 1 else 0) (\<lambda>tr. []))
        \<lparr>trace = [], uart_rx = []\<rparr> =
     Running
       \<lparr>trace =
          [Mutex_init 0,
           Gpio_init LED_RGB_RED CYHAL_GPIO_DIR_OUTPUT CYHAL_GPIO_DRIVE_STRONG False 0,
           Gpio_init LED_RGB_GREEN CYHAL_GPIO_DIR_OUTPUT CYHAL_GPIO_DRIVE_STRONG False 0,
           Gpio_init LED_RGB_BLUE CYHAL_GPIO_DIR_OUTPUT CYHAL_GPIO_DRIVE_STRONG False 0,
           Gpio_init CYBSP_GPIO11 CYHAL_GPIO_DIR_OUTPUT CYHAL_GPIO_DRIVE_STRONG True 1,
           Gpio_init CYBSP_GPIO5 CYHAL_GPIO_DIR_OUTPUT CYHAL_GPIO_DRIVE_STRONG True 0,
           Gpio_init CYBSP_GPIO10 CYHAL_GPIO_DIR_INPUT CYHAL_GPIO_DRIVE_PULLDOWN False 0,
           Gpio_init CYBSP_SPI_CS CYHAL_GPIO_DIR_OUTPUT CYHAL_GPIO_DRIVE_STRONG True 0,
           Spi_init 0,
           Spi_set_frequency 25000000 0,
           Sensing_init 0,
           Register_callback 0,
           Set_parameter ''radar_presence_range_max'' ''1.0'' 0,
           Set_parameter ''radar_presence_sensitivity'' ''medium'' 0,
           Sensing_enable 0],
        uart_rx = []\<rparr>"
  by (simp add: radar_task_def bringup_eval)

text \<open>
  C8.  Any byte other than \<^verbatim>\<open>?\<close>, \<^verbatim>\<open>r\<close> and \<^verbatim>\<open>s\<close>: the switch prints the one
  line of the hint and has no other effect (no call of the engine, no indicator write,
  the buffer and the pending input untouched), and the loop goes on.
\<close>

theorem unknown_key_prints_hint_only:
  assumes "key \<noteq> CHR ''?''" and "key \<noteq> CHR ''r''" and "key \<noteq> CHR ''s''"
  shows "terminal_ui_switch env key val w =
       Returns val
         (w\<lparr>trace := trace w @
            [Printf ''Press '?' to list all radar presence settings\<newline>'' []]\<rparr>) \<and>
     radar_presence_terminal_ui_loop env val (w\<lparr>uart_rx := Rx key # rest\<rparr>) =
       radar_presence_terminal_ui_loop env val
         (w\<lparr>uart_rx := rest,
            trace := trace w @
              [Uart_getc (Rx key),
               Printf ''Press '?' to list all radar presence settings\<newline>'' []]\<rparr>)"
proof -
  have sw: "terminal_ui_switch env key val v =
      Returns val (v\<lparr>trace := trace v @
         [Printf ''Press '?' to list all radar presence settings\<newline>'' []]\<rparr>)" for v
    using assms by (simp add: terminal_ui_switch_def terminal_ui_info_def printf_def emit_def)
  have "uart_rx (w\<lparr>uart_rx := Rx key # rest\<rparr>) = Rx key # rest" by simp
  from ui_loop_key[OF this, of env val] show ?thesis
    by (simp add: sw)
qed

theorem unknown_key_prints_hint_only_x:
  "CHR ''x'' \<noteq> CHR ''?'' \<and> CHR ''x'' \<noteq> CHR ''r'' \<and> CHR ''x'' \<noteq> CHR ''s'' \<and>
   terminal_ui_switch (scripted_env (\<lambda>tr. 0) (\<lambda>tr. [])) (CHR ''x'') ''####''
       \<lparr>trace = [], uart_rx = []\<rparr> =
     Returns ''####''
       \<lparr>trace = [Printf ''Press '?' to list all radar presence settings\<newline>'' []],
        uart_rx = []\<rparr>"
  using unknown_key_prints_hint_only[of "CHR ''x''" "scripted_env (\<lambda>tr. 0) (\<lambda>tr. [])" "''####''"
      "\<lparr>trace = [], uart_rx = []\<rparr>" "[]"]
  by simp

text \<open>
  C9.  For every \<open>m > 0\<close>, every buffer of at least \<open>m\<close> bytes and every sequence of
  read outcomes (with or without a carriage return, failed reads included),
  \<^verbatim>\<open>terminal_ui_readline\<close> never stores outside the first \<open>m\<close> bytes of the
  buffer: no store is at or beyond the length of the buffer, and the bytes from index
  \<open>m\<close> on are unchanged.  It makes fewer than \<open>m\<close> reads, that is, at most \<open>m - 1\<close>
  turns of the loop.
\<close>

theorem readline_stays_in_buffer:
  assumes "0 < m" and "nat m \<le> length line"
  shows "readline_within (nat m) line w (terminal_ui_readline env line m w)"
proof -
  define w0 where "w0 = radar_presence_task_set_mute env True w"
  have pre: "0 + nat (m - 1) < length line" using assms by simp
  have rx0: "uart_rx w0 = uart_rx w" by (simp add: w0_def)
  have m: "nat m = Suc (nat (m - 1))" using assms(1) by simp
  have lb: "loop_bounded (nat (m - 1)) line w0 (nat (m - 1))
              (terminal_ui_readline_loop (CHR 0x00) m 0 line w0)"
    using readline_loop_within[OF pre, of w0 "CHR 0x00"] by simp
  show ?thesis
  proof (cases "terminal_ui_readline_loop (CHR 0x00) m 0 line w0")
    case (Returns p w1)
    obtain j l where p: "p = (j, l)" by (cases p)
    from lb have h: "j \<le> nat (m - 1)" "length l = length line"
      "drop (nat (m - 1)) l = drop (nat (m - 1)) line"
      "length (uart_rx w0) \<le> length (uart_rx w1) + nat (m - 1)"
      by (simp_all add: Returns p)
    have j: "j < length l" "j < nat m" using h(1,2) pre m by simp_all
    have "drop (nat m) l = drop (nat m) line"
      using drop_eq_later[OF h(3), of "nat m"] m by simp
    then have "drop (nat m) (l[j := CHR 0x00]) = drop (nat m) line"
      using j(2) by simp
    then show ?thesis
      using assms(1) j(1) h(2,4) m
      by (simp add: terminal_ui_readline_def w0_def[symmetric] rx0 Let_def cyhal_uart_putc_def
          Returns p)
  next
    case (Blocks w1)
    with lb assms(1) m show ?thesis
      by (simp add: terminal_ui_readline_def w0_def[symmetric] rx0 Let_def)
  next
    case (Faults w1)
    with lb show ?thesis by simp
  qed
qed

theorem readline_stays_in_buffer_example:
  "(0::int) < 3 \<and> nat 3 \<le> length ''####'' \<and>
   readline_within (nat 3) ''####''
     \<lparr>trace = [] :: real effect list, uart_rx = [Rx (CHR ''a''), Rx (CHR ''b''), Rx (CHR ''c'')]\<rparr>
     (terminal_ui_readline (scripted_env (\<lambda>tr. 0) (\<lambda>tr. [])) ''####'' 3
        \<lparr>trace = [], uart_rx = [Rx (CHR ''a''), Rx (CHR ''b''), Rx (CHR ''c'')]\<rparr>) \<and>
   terminal_ui_readline (scripted_env (\<lambda>tr. 0) (\<lambda>tr. [])) ''####'' 3
        \<lparr>trace = [], uart_rx = [Rx (CHR ''a''), Rx (CHR ''b''), Rx (CHR ''c'')]\<rparr> =
     Returns [CHR ''a'', CHR ''b'', CHR 0x00, CHR ''#'']
       \<lparr>trace =
          [Mutex_get CY_RTOS_NEVER_TIMEOUT 0,
           Uart_getc (Rx (CHR ''a'')), Uart_putc (CHR ''a''),
           Uart_getc (Rx (CHR ''b'')), Uart_putc (CHR ''b''),
           Uart_putc (CHR 0x0A), Mutex_set],
        uart_rx = [Rx (CHR ''c'')]\<rparr>"
proof -
  have a: "(0::int) < 3" and b: "nat 3 \<le> length ''####''" by simp_all
  have run: "terminal_ui_readline (scripted_env (\<lambda>tr. 0) (\<lambda>tr. [])) ''####'' 3
        \<lparr>trace = [], uart_rx = [Rx (CHR ''a''), Rx (CHR ''b''), Rx (CHR ''c'')]\<rparr> =
     Returns [CHR ''a'', CHR ''b'', CHR 0x00, CHR ''#'']
       \<lparr>trace =
          [Mutex_get CY_RTOS_NEVER_TIMEOUT 0,
           Uart_getc (Rx (CHR ''a'')), Uart_putc (CHR ''a''),
           Uart_getc (Rx (CHR ''b'')), Uart_putc (CHR ''b''),
           Uart_putc (CHR 0x0A), Mutex_set],
        uart_rx = [Rx (CHR ''c'')]\<rparr>"
    using readline_bytes[of 3 "''####''"
        "\<lparr>trace = [], uart_rx = [Rx (CHR ''a''), Rx (CHR ''b''), Rx (CHR ''c'')]\<rparr>"
        "[CHR ''a'', CHR ''b'']" "[Rx (CHR ''c'')]" "scripted_env (\<lambda>tr. 0) (\<lambda>tr. [])"]
    by (simp add: kept_def echo_def isspace_def scripted_env_def)
  from readline_stays_in_buffer[OF a b] run a b show ?thesis by blast
qed

text \<open>
  C10.  On an event that is neither PresenceIn nor PresenceOut the callback does nothing:
  the world, and with it the trace of indicator writes, mutex calls and prints, is
  unchanged.
\<close>

theorem callback_other_event_noop:
  "radar_sensing_callback env (MTB_RADAR_SENSING_EVENT_OTHER k) info w = w"
  by (simp add: radar_sensing_callback_def)

end
